theory Spec2Isabelle
  imports Complex_Main
begin

section \<open>Python strings\<close>

text \<open>
  A Python \<open>str\<close> is modelled as a \<open>string\<close>, one \<open>char\<close> per code point (so the
  model covers the code points below 256). \<open>str.strip()\<close> and \<open>str.rstrip()\<close> without
  argument remove the characters for which \<open>str.isspace\<close> holds; below 256 these are
  U+0009..U+000D, U+001C..U+001F, U+0020, U+0085 and U+00A0.
\<close>

definition whitespace :: "char list" where
  "whitespace = [CHR 0x09, CHR 0x0A, CHR 0x0B, CHR 0x0C, CHR 0x0D,
                 CHR 0x1C, CHR 0x1D, CHR 0x1E, CHR 0x1F, CHR 0x20, CHR 0x85, CHR 0xA0]"

definition isspace :: "char \<Rightarrow> bool" where
  "isspace c = (c \<in> set whitespace)"

definition lstrip :: "string \<Rightarrow> string" where
  "lstrip s = dropWhile isspace s"

definition rstrip :: "string \<Rightarrow> string" where
  "rstrip s = rev (dropWhile isspace (rev s))"

definition strip :: "string \<Rightarrow> string" where
  "strip s = lstrip (rstrip s)"

text \<open>\<open>t.endswith(s)\<close>\<close>

definition endswith :: "string \<Rightarrow> string \<Rightarrow> bool" where
  "endswith t s = (length s \<le> length t \<and> drop (length t - length s) t = s)"

text \<open>
  The slice \<open>t[:-n]\<close> for \<open>n \<ge> 0\<close>. For \<open>n = 0\<close> Python reads the bound \<open>-0\<close> as
  \<open>0\<close>, so \<open>t[:-0]\<close> is the empty string; for \<open>n\<close> beyond the length the bound is
  clamped to \<open>0\<close>.
\<close>

definition slice_to_neg :: "string \<Rightarrow> nat \<Rightarrow> string" where
  "slice_to_neg t n = (if n = 0 then [] else take (length t - n) t)"

text \<open>\<open>key in s\<close> for two strings: \<open>key\<close> occurs in \<open>s\<close> as a contiguous substring.\<close>

fun str_contains :: "string \<Rightarrow> string \<Rightarrow> bool" where
  "str_contains key [] = (key = [])"
| "str_contains key (c # cs) = (take (length key) (c # cs) = key \<or> str_contains key cs)"

section \<open>Endpoint normalization\<close>

text \<open>
  \<open>clean_url\<close> (lines 19 to 26): an \<open>if\<close>/\<open>elif\<close>/\<open>else\<close> chain, so that exactly one
  branch is taken per call.
\<close>

definition clean_url :: "string \<Rightarrow> string" where
  "clean_url url =
     (if endswith url ''/api'' then slice_to_neg url 4
      else if endswith url ''/'' then slice_to_neg url 1
      else url)"

section \<open>JSON values, Python exceptions and the HTTP exchange\<close>

text \<open>
  A decoded JSON document, as \<open>response.json()\<close> returns it. A Python float is held
  as the real number it denotes: the adapter stores, forwards and compares floats and does
  no arithmetic on them. An object is an association list in insertion order, read with
  \<open>map_of\<close>.
\<close>

datatype json =
    JNull
  | JBool bool
  | JInt int
  | JFloat real
  | JStr string
  | JArr "json list"
  | JObj "(string \<times> json) list"

type_synonym dict = "(string \<times> json) list"

text \<open>
  The exceptions that can reach the adapter's code. \<open>UnexpectedFormat\<close> is the
  \<open>ValueError\<close> of lines 217 and 282, which carries the decoded payload;
  \<open>NotRunning\<close> is the \<open>ValueError\<close> of line 305. \<open>TransportException\<close> stands for
  an exception raised by the HTTP library while sending (no response at all), and
  \<open>KeyboardInterrupt\<close> for the exceptions that derive from \<open>BaseException\<close> only, which
  \<open>except Exception\<close> does not catch. The two HTTP libraries raise exceptions of their
  own classes: \<open>HTTPError\<close> and \<open>JSONDecodeError\<close> are those of \<open>requests\<close>;
  \<open>ClientResponseError\<close> and \<open>ContentTypeError\<close> are those of \<open>aiohttp\<close>, and
  \<open>StdJSONDecodeError\<close> is the \<open>json.JSONDecodeError\<close> of the standard decoder, which
  \<open>aiohttp\<close> lets through.
\<close>

datatype exn =
    HTTPError int
  | TransportException
  | JSONDecodeError
  | UnexpectedFormat json
  | NotRunning
  | ValueError
  | TypeError
  | KeyError
  | IndexError
  | AttributeError
  | UnboundLocalError
  | KeyboardInterrupt
  | ClientResponseError int
  | ContentTypeError
  | StdJSONDecodeError

definition is_Exception :: "exn \<Rightarrow> bool" where
  "is_Exception e = (e \<noteq> KeyboardInterrupt)"

text \<open>Sequencing of statements that may raise: the first exception ends the block.\<close>

definition and_then :: "exn + 'a \<Rightarrow> ('a \<Rightarrow> exn + 'b) \<Rightarrow> exn + 'b" where
  "and_then m f = (case m of Inl e \<Rightarrow> Inl e | Inr x \<Rightarrow> f x)"

datatype request = Get string | Post string json

text \<open>
  What a response carries, as far as the adapter can tell: the status code, whether the
  \<open>Content-Type\<close> header names a JSON type, and the body, which is blank (empty or
  whitespace only), no JSON document, or a JSON document.
\<close>

datatype content = Blank | NotJson | Document json

record response =
  status_code :: int
  json_content_type :: bool
  content :: content

text \<open>
  The server and the network are the environment: a function from the request sent to
  either an exception of the HTTP library or the response received. It stands for the
  sending call of the library in use (\<open>requests.post\<close> and \<open>requests.get\<close>, or the
  \<open>session.post\<close> of \<open>aiohttp\<close>), so each function that sends takes its own.
\<close>

type_synonym http = "request \<Rightarrow> exn + response"

text \<open>
  \<open>response.raise_for_status()\<close> of \<open>requests\<close> raises for the status codes 400 to
  599.
\<close>

definition raise_for_status :: "response \<Rightarrow> exn + unit" where
  "raise_for_status r =
     (if 400 \<le> status_code r \<and> status_code r < 600 then Inl (HTTPError (status_code r))
      else Inr ())"

text \<open>
  \<open>response.json()\<close> of \<open>requests\<close> decodes the body whatever the content type is,
  and raises when the body is not a JSON document; a blank body is none.
\<close>

definition response_json :: "response \<Rightarrow> exn + json" where
  "response_json r =
     (case content r of
        Blank \<Rightarrow> Inl JSONDecodeError
      | NotJson \<Rightarrow> Inl JSONDecodeError
      | Document j \<Rightarrow> Inr j)"

text \<open>
  \<open>response.raise_for_status()\<close> of \<open>aiohttp\<close> raises for every status code from
  400 on.
\<close>

definition aio_raise_for_status :: "response \<Rightarrow> exn + unit" where
  "aio_raise_for_status r =
     (if 400 \<le> status_code r then Inl (ClientResponseError (status_code r)) else Inr ())"

text \<open>
  \<open>await response.json()\<close> of \<open>aiohttp\<close> first checks the content type and raises
  when it is no JSON type; it then returns \<open>None\<close> for a blank body, and decodes any
  other body with the standard decoder.
\<close>

definition aio_json :: "response \<Rightarrow> exn + json" where
  "aio_json r =
     (if \<not> json_content_type r then Inl ContentTypeError
      else case content r of
             Blank \<Rightarrow> Inr JNull
           | NotJson \<Rightarrow> Inl StdJSONDecodeError
           | Document j \<Rightarrow> Inr j)"

subsection \<open>Python operators on decoded JSON\<close>

text \<open>\<open>key in v\<close> for a string \<open>key\<close>.\<close>

fun py_in :: "string \<Rightarrow> json \<Rightarrow> exn + bool" where
  "py_in key (JObj kvs) = Inr (key \<in> set (map fst kvs))"
| "py_in key (JArr xs) = Inr (JStr key \<in> set xs)"
| "py_in key (JStr s) = Inr (str_contains key s)"
| "py_in key _ = Inl TypeError"

text \<open>\<open>len(v)\<close>\<close>

fun py_len :: "json \<Rightarrow> exn + nat" where
  "py_len (JObj kvs) = Inr (length (remdups (map fst kvs)))"
| "py_len (JArr xs) = Inr (length xs)"
| "py_len (JStr s) = Inr (length s)"
| "py_len _ = Inl TypeError"

text \<open>\<open>v[key]\<close> for a string \<open>key\<close>.\<close>

fun py_getitem :: "json \<Rightarrow> string \<Rightarrow> exn + json" where
  "py_getitem (JObj kvs) key = (case map_of kvs key of None \<Rightarrow> Inl KeyError | Some x \<Rightarrow> Inr x)"
| "py_getitem _ key = Inl TypeError"

text \<open>
  \<open>v[0]\<close>. The keys of a decoded JSON object are strings, so the integer key is
  missing from every object.
\<close>

fun py_index0 :: "json \<Rightarrow> exn + json" where
  "py_index0 (JArr []) = Inl IndexError"
| "py_index0 (JArr (x # xs)) = Inr x"
| "py_index0 (JStr []) = Inl IndexError"
| "py_index0 (JStr (c # cs)) = Inr (JStr [c])"
| "py_index0 (JObj kvs) = Inl KeyError"
| "py_index0 _ = Inl TypeError"

text \<open>\<open>v.strip()\<close>: only a string has the method.\<close>

fun py_strip :: "json \<Rightarrow> exn + string" where
  "py_strip (JStr s) = Inr (strip s)"
| "py_strip _ = Inl AttributeError"

text \<open>\<open>v == True\<close>: \<open>True\<close> equals the boolean, the integer 1 and the float 1.0.\<close>

definition py_eq_True :: "json \<Rightarrow> bool" where
  "py_eq_True v = (v = JBool True \<or> v = JInt 1 \<or> v = JFloat 1)"

text \<open>
  \<open>d[key] = v\<close> on a dictionary: an existing key keeps its position, a new key goes to
  the end.
\<close>

fun dict_set :: "dict \<Rightarrow> string \<Rightarrow> json \<Rightarrow> dict" where
  "dict_set [] key v = [(key, v)]"
| "dict_set ((k, x) # d) key v = (if k = key then (k, v) # d else (k, x) # dict_set d key v)"

section \<open>The client\<close>

text \<open>
  The fields of class \<open>KoboldApiLLM\<close> (lines 44 to 134). The sampling fields are
  \<open>Optional\<close>, so each may be \<open>None\<close>. \<open>genkeys\<close> is keyed by the channel identifier,
  an \<open>Optional[str]\<close> whose default is \<open>None\<close>.
\<close>

record client =
  endpoint :: string
  use_story :: "bool option"
  use_authors_note :: "bool option"
  use_world_info :: "bool option"
  use_memory :: "bool option"
  max_context_length :: "int option"
  max_length :: "int option"
  rep_pen :: "real option"
  rep_pen_range :: "int option"
  rep_pen_slope :: "real option"
  temperature :: "real option"
  tfs :: "real option"
  top_a :: "real option"
  top_p :: "real option"
  top_k :: "int option"
  typical :: "real option"
  genkeys :: "string option \<rightharpoonup> string"
  is_koboldcpp :: bool

text \<open>A client built with the class defaults.\<close>

definition default_client :: "string \<Rightarrow> client" where
  "default_client e =
     \<lparr> endpoint = e,
       use_story = Some False, use_authors_note = Some False,
       use_world_info = Some False, use_memory = Some False,
       max_context_length = Some 1600, max_length = Some 80,
       rep_pen = Some 1.12, rep_pen_range = Some 1024, rep_pen_slope = Some 0.9,
       temperature = Some 0.6, tfs = Some 0.9, top_a = Some 0.9, top_p = Some 0.95,
       top_k = Some 0, typical = Some 0.5,
       genkeys = Map.empty, is_koboldcpp = False \<rparr>"

definition json_bool :: "bool option \<Rightarrow> json" where
  "json_bool v = (case v of None \<Rightarrow> JNull | Some b \<Rightarrow> JBool b)"

definition json_int :: "int option \<Rightarrow> json" where
  "json_int v = (case v of None \<Rightarrow> JNull | Some i \<Rightarrow> JInt i)"

definition json_float :: "real option \<Rightarrow> json" where
  "json_float v = (case v of None \<Rightarrow> JNull | Some x \<Rightarrow> JFloat x)"

subsection \<open>Request building\<close>

text \<open>
  \<open>_get_parameters\<close> (lines 141 to 168). \<open>if stop:\<close> is false for \<open>None\<close> and for the
  empty list.
\<close>

definition KoboldApiLLM_get_parameters :: "client \<Rightarrow> string \<Rightarrow> string list option \<Rightarrow> dict" where
  "KoboldApiLLM_get_parameters self prompt stop =
     (let data =
        [(''prompt'', JStr prompt),
         (''use_story'', json_bool (use_story self)),
         (''use_authors_note'', json_bool (use_authors_note self)),
         (''use_world_info'', json_bool (use_world_info self)),
         (''use_memory'', json_bool (use_memory self)),
         (''max_context_length'', json_int (max_context_length self)),
         (''max_length'', json_int (max_length self)),
         (''rep_pen'', json_float (rep_pen self)),
         (''rep_pen_range'', json_int (rep_pen_range self)),
         (''rep_pen_slope'', json_float (rep_pen_slope self)),
         (''temperature'', json_float (temperature self)),
         (''tfs'', json_float (tfs self)),
         (''top_a'', json_float (top_a self)),
         (''top_p'', json_float (top_p self)),
         (''top_k'', json_int (top_k self)),
         (''typical'', json_float (typical self))]
      in case stop of
           None \<Rightarrow> data
         | Some [] \<Rightarrow> data
         | Some (s # ss) \<Rightarrow> dict_set data ''stop_sequence'' (JArr (map JStr (s # ss))))"

subsection \<open>Response handling\<close>

text \<open>
  The test of lines 203 to 207, which lines 268 to 272 repeat word for word:
  \<open>"results" in json_response and len(json_response["results"]) > 0 and
  "text" in json_response["results"][0]\<close>. \<open>and\<close> stops at the first false operand, and
  each operand may raise.
\<close>

definition expected_shape :: "json \<Rightarrow> exn + bool" where
  "expected_shape json_response =
     and_then (py_in ''results'' json_response) (\<lambda>has_results.
       if \<not> has_results then Inr False
       else and_then (py_getitem json_response ''results'') (\<lambda>results.
         and_then (py_len results) (\<lambda>n.
           if \<not> 0 < n then Inr False
           else and_then (py_getitem json_response ''results'') (\<lambda>results.
             and_then (py_index0 results) (\<lambda>first.
               py_in ''text'' first)))))"

text \<open>\<open>json_response["results"][0]["text"].strip()\<close> (lines 208 and 273).\<close>

definition results_text :: "json \<Rightarrow> exn + string" where
  "results_text json_response =
     and_then (py_getitem json_response ''results'') (\<lambda>results.
       and_then (py_index0 results) (\<lambda>first.
         and_then (py_getitem first ''text'') py_strip))"

text \<open>
  The loop of lines 211 to 213, which lines 276 to 278 repeat word for word. It has no
  \<open>break\<close>: every sequence of the list is tested, each against the text as the earlier
  iterations left it.
\<close>

fun strip_stop_sequences :: "string \<Rightarrow> string list \<Rightarrow> string" where
  "strip_stop_sequences text [] = text"
| "strip_stop_sequences text (sequence # rest) =
     strip_stop_sequences
       (if endswith text sequence then rstrip (slice_to_neg text (length sequence)) else text)
       rest"

text \<open>Lines 210 and 275: \<open>if stop is not None\<close>.\<close>

definition postprocess :: "string \<Rightarrow> string list option \<Rightarrow> string" where
  "postprocess text stop =
     (case stop of None \<Rightarrow> text | Some sequences \<Rightarrow> strip_stop_sequences text sequences)"

subsection \<open>The blocking call\<close>

text \<open>\<open>_call\<close> (lines 170 to 219). It reads the client and changes nothing.\<close>

definition generate_url :: "client \<Rightarrow> string" where
  "generate_url self = clean_url (endpoint self) @ ''/api/v1/generate''"

definition KoboldApiLLM_call :: "client \<Rightarrow> http \<Rightarrow> string \<Rightarrow> string list option \<Rightarrow> exn + string" where
  "KoboldApiLLM_call self http prompt stop =
     (let data = KoboldApiLLM_get_parameters self prompt stop in
      and_then (http (Post (generate_url self) (JObj data))) (\<lambda>response.
        and_then (raise_for_status response) (\<lambda>_.
          and_then (response_json response) (\<lambda>json_response.
            and_then (expected_shape json_response) (\<lambda>ok.
              if ok then
                and_then (results_text json_response) (\<lambda>text. Inr (postprocess text stop))
              else Inl (UnexpectedFormat json_response))))))"

subsection \<open>The non-blocking call\<close>

text \<open>
  The random generator is the sequence of raw values it will deliver. One choice from a
  population of \<open>n\<close> elements uses one raw value, reduced to an index below \<open>n\<close>;
  \<open>random.choices(population, k=k)\<close> makes \<open>k\<close> such choices, with replacement. The
  population of line 249 is never empty.
\<close>

type_synonym rng = "nat \<Rightarrow> nat"

primrec random_choices :: "'a list \<Rightarrow> nat \<Rightarrow> rng \<Rightarrow> 'a list" where
  "random_choices population 0 rng = []"
| "random_choices population (Suc k) rng =
     population ! (rng 0 mod length population)
       # random_choices population k (\<lambda>i. rng (Suc i))"

definition rng_advance :: "nat \<Rightarrow> rng \<Rightarrow> rng" where
  "rng_advance k rng = (\<lambda>i. rng (i + k))"

text \<open>\<open>string.ascii_uppercase + string.digits\<close>\<close>

definition genkey_alphabet :: string where
  "genkey_alphabet = ''ABCDEFGHIJKLMNOPQRSTUVWXYZ0123456789''"

definition new_genkey :: "rng \<Rightarrow> string" where
  "new_genkey rng = random_choices genkey_alphabet 10 rng"

text \<open>What the adapter prints.\<close>

datatype line =
    GenkeyLine string
  | RunningKoboldcpp
  | RunningKoboldAI
  | AbortedLine "string option" string
  | ErrorAborting
  | ErrorAbortingWith exn

text \<open>
  Lines 247 to 259 of \<open>_acall\<close>: everything that happens before the request is sent.
  The result is the client, the generator, the request body and the lines printed.
\<close>

definition acall_prepare ::
  "client \<Rightarrow> rng \<Rightarrow> string \<Rightarrow> string list option \<Rightarrow> string option
     \<Rightarrow> client \<times> rng \<times> dict \<times> line list" where
  "acall_prepare self rng prompt stop channel_id =
     (if is_koboldcpp self then
        (let genkey = new_genkey rng;
             self' = self\<lparr>genkeys := (genkeys self)(channel_id \<mapsto> genkey)\<rparr>;
             data = KoboldApiLLM_get_parameters self' prompt stop;
             data' = dict_set data ''genkey'' (JStr genkey)
         in (self', rng_advance 10 rng, data', [GenkeyLine genkey]))
      else (self, rng, KoboldApiLLM_get_parameters self prompt stop, []))"

text \<open>
  Lines 262 to 284 of \<open>_acall\<close>: the exchange and the handling of the response. The
  exchange goes through \<open>aiohttp\<close>, so \<open>raise_for_status\<close> and \<open>json()\<close> are that
  library's, and \<open>http\<close> stands for its \<open>session.post\<close>. After \<open>json()\<close> the text of
  the function is that of \<open>_call\<close>.
\<close>

definition acall_exchange :: "client \<Rightarrow> http \<Rightarrow> dict \<Rightarrow> string list option \<Rightarrow> exn + string" where
  "acall_exchange self http data stop =
     and_then (http (Post (generate_url self) (JObj data))) (\<lambda>response.
       and_then (aio_raise_for_status response) (\<lambda>_.
         and_then (aio_json response) (\<lambda>json_response.
           and_then (expected_shape json_response) (\<lambda>ok.
             if ok then
               and_then (results_text json_response) (\<lambda>text. Inr (postprocess text stop))
             else Inl (UnexpectedFormat json_response)))))"

text \<open>
  \<open>_acall\<close> (lines 222 to 284): the result or the exception, with the client, the
  generator and the printed lines as the call leaves them, also when it raises.
\<close>

definition KoboldApiLLM_acall ::
  "client \<Rightarrow> rng \<Rightarrow> http \<Rightarrow> string \<Rightarrow> string list option \<Rightarrow> string option
     \<Rightarrow> (exn + string) \<times> client \<times> rng \<times> line list" where
  "KoboldApiLLM_acall self rng http prompt stop channel_id =
     (case acall_prepare self rng prompt stop channel_id of
        (self', rng', data, out) \<Rightarrow> (acall_exchange self' http data stop, self', rng', out))"

subsection \<open>The dialect probe\<close>

text \<open>
  One probe: \<open>requests.get\<close>, \<open>raise_for_status\<close>, \<open>response.json()\<close> (lines 289 to 291
  and 298 to 300).
\<close>

definition probe :: "http \<Rightarrow> string \<Rightarrow> exn + json" where
  "probe http url =
     and_then (http (Get url)) (\<lambda>response.
       and_then (raise_for_status response) (\<lambda>_. response_json response))"

text \<open>
  The inner \<open>try\<close> of \<open>check_version\<close> (lines 297 to 305), entered from the outer
  \<open>except\<close> with the client and the output as the outer \<open>try\<close> left them.
\<close>

definition check_version_basic ::
  "client \<Rightarrow> http \<Rightarrow> line list \<Rightarrow> (exn + real) \<times> client \<times> line list" where
  "check_version_basic self http out =
     (case probe http (clean_url (endpoint self) @ ''/api/v1/version'') of
        Inr json_response \<Rightarrow> (Inr 0, self\<lparr>is_koboldcpp := False\<rparr>, out @ [RunningKoboldAI])
      | Inl _ \<Rightarrow> (Inl NotRunning, self, out))"

text \<open>
  \<open>check_version\<close> (lines 286 to 305). Both \<open>except:\<close> clauses are bare and catch
  every exception. The flag is assigned on line 292, before line 294 reads the
  \<open>version\<close> field and converts it. The builtin \<open>float\<close> is a parameter.
\<close>

definition KoboldApiLLM_check_version ::
  "client \<Rightarrow> http \<Rightarrow> (json \<Rightarrow> exn + real) \<Rightarrow> (exn + real) \<times> client \<times> line list" where
  "KoboldApiLLM_check_version self http pyfloat =
     (case probe http (clean_url (endpoint self) @ ''/api/extra/version'') of
        Inr json_response \<Rightarrow>
          (let self' = self\<lparr>is_koboldcpp := True\<rparr>;
               out = [RunningKoboldcpp]
           in case and_then (py_getitem json_response ''version'') pyfloat of
                Inr version \<Rightarrow> (Inr version, self', out)
              | Inl _ \<Rightarrow> check_version_basic self' http out)
      | Inl _ \<Rightarrow> check_version_basic self http [])"

subsection \<open>Cancellation\<close>

text \<open>
  The body of the \<open>try\<close> of \<open>_stop\<close> (lines 320 to 324). The local variable \<open>json\<close>
  is bound only when line 314 found the channel (then \<open>genkey\<close> is bound too); reading
  it unbound on line 320 raises \<open>UnboundLocalError\<close> before anything is sent.
\<close>

definition stop_try :: "client \<Rightarrow> http \<Rightarrow> string option \<Rightarrow> string option \<Rightarrow> exn + line" where
  "stop_try self http channel_id bound_genkey =
     (case bound_genkey of
        None \<Rightarrow> Inl UnboundLocalError
      | Some genkey \<Rightarrow>
          and_then (http (Post (clean_url (endpoint self) @ ''/api/extra/abort'')
                            (JObj [(''genkey'', JStr genkey)]))) (\<lambda>response.
            if status_code response = 200 then
              and_then (response_json response) (\<lambda>body.
                and_then (py_getitem body ''success'') (\<lambda>success.
                  if py_eq_True success then Inr (AbortedLine channel_id genkey)
                  else Inr ErrorAborting))
            else Inr ErrorAborting))"

text \<open>
  \<open>_stop\<close> (lines 308 to 327). \<open>except Exception\<close> catches what derives from
  \<open>Exception\<close> and prints it; anything else leaves the function. The result is the
  exception raised to the caller, if any, and the lines printed.
\<close>

definition KoboldApiLLM_stop :: "client \<Rightarrow> http \<Rightarrow> string option \<Rightarrow> (exn + unit) \<times> line list" where
  "KoboldApiLLM_stop self http channel_id =
     (let bound_genkey = (if genkeys self channel_id \<noteq> None then genkeys self channel_id else None)
      in case stop_try self http channel_id bound_genkey of
           Inr printed \<Rightarrow> (Inr (), [printed])
         | Inl e \<Rightarrow> if is_Exception e then (Inr (), [ErrorAbortingWith e]) else (Inl e, []))"

section \<open>The specification's reading, for comparison\<close>

text \<open>
  Stop-sequence stripping as the specification words it: the sequences are tried in
  order, the first one the text ends with is removed, trailing whitespace is trimmed, and
  nothing else is stripped.
\<close>

fun strip_first_match :: "string \<Rightarrow> string list \<Rightarrow> string" where
  "strip_first_match text [] = text"
| "strip_first_match text (sequence # rest) =
     (if endswith text sequence then rstrip (take (length text - length sequence) text)
      else strip_first_match text rest)"

text \<open>
  The response shape as the specification words it: a JSON object with a \<open>results\<close>
  array whose first element is an object with a \<open>text\<close> field.
\<close>

definition results_text_shape :: "json \<Rightarrow> bool" where
  "results_text_shape j =
     (case j of
        JObj kvs \<Rightarrow>
          (case map_of kvs ''results'' of
             Some (JArr (JObj entries # rest)) \<Rightarrow> map_of entries ''text'' \<noteq> None
           | _ \<Rightarrow> False)
      | _ \<Rightarrow> False)"

section \<open>Notions used in the statements\<close>

text \<open>The request body that \<open>_acall\<close> sends: \<open>data\<close> as lines 254 to 259 leave it.\<close>

definition acall_body :: "client \<Rightarrow> rng \<Rightarrow> string \<Rightarrow> string list option \<Rightarrow> string option \<Rightarrow> dict" where
  "acall_body self rng prompt stop channel_id =
     (case acall_prepare self rng prompt stop channel_id of (self', rng', data, out) \<Rightarrow> data)"

text \<open>
  Two generation calls in sequence for the same channel: the second starts from the client
  and the generator as the first left them. The results of both calls are kept, and the
  printed lines are concatenated.
\<close>

definition acall_twice ::
  "client \<Rightarrow> rng \<Rightarrow> http \<Rightarrow> http \<Rightarrow> string \<Rightarrow> string \<Rightarrow> string list option
     \<Rightarrow> string list option \<Rightarrow> string option
     \<Rightarrow> ((exn + string) \<times> (exn + string)) \<times> client \<times> rng \<times> line list" where
  "acall_twice self rng http1 http2 prompt1 prompt2 stop1 stop2 channel_id =
     (case KoboldApiLLM_acall self rng http1 prompt1 stop1 channel_id of
        (result1, self1, rng1, out1) \<Rightarrow>
          (case KoboldApiLLM_acall self1 rng1 http2 prompt2 stop2 channel_id of
             (result2, self2, rng2, out2) \<Rightarrow> ((result1, result2), self2, rng2, out1 @ out2)))"

text \<open>The exceptions that the Python operators on decoded JSON raise.\<close>

definition lookup_error :: "exn \<Rightarrow> bool" where
  "lookup_error e = (e = TypeError \<or> e = KeyError \<or> e = IndexError \<or> e = AttributeError)"

section \<open>Concrete clients and servers for the examples\<close>

text \<open>
  A server that answers every request with the same response, a response with status
  200, a JSON content type and a JSON body, and the payload \<open>{"results": [{"text": t}]}\<close>.
\<close>

definition always :: "response \<Rightarrow> http" where
  "always r = (\<lambda>request. Inr r)"

definition ok_response :: "json \<Rightarrow> response" where
  "ok_response j = \<lparr>status_code = 200, json_content_type = True, content = Document j\<rparr>"

definition text_payload :: "string \<Rightarrow> json" where
  "text_payload t = JObj [(''results'', JArr [JObj [(''text'', JStr t)]])]"

text \<open>
  A server that answers the extended version probe of \<open>http://h:5000\<close> with status 200
  and the JSON body \<open>{}\<close>, and is unreachable on every other path.
\<close>

definition unversioned_server :: http where
  "unversioned_server request =
     (if request = Get ''http://h:5000/api/extra/version'' then Inr (ok_response (JObj []))
      else Inl TransportException)"

text \<open>A client with the class defaults on which the probe has found the extended dialect.\<close>

definition extended_client :: client where
  "extended_client = (default_client ''http://h:5000'')\<lparr>is_koboldcpp := True\<rparr>"

section \<open>Helper facts on strings\<close>

lemma endswith_cut: "endswith t s \<Longrightarrow> length s = n \<Longrightarrow> take (length t - n) t @ s = t"
  unfolding endswith_def by (metis append_take_drop_id)

lemma slice_to_neg_shorter:
  "endswith u s \<Longrightarrow> length s = Suc n \<Longrightarrow> length (slice_to_neg u (Suc n)) < length u"
  by (auto simp: slice_to_neg_def endswith_def)

lemma clean_url_fixed_iff:
  "clean_url v = v \<longleftrightarrow> \<not> endswith v ''/api'' \<and> \<not> endswith v ''/''"
proof -
  have a: "endswith v ''/api'' \<Longrightarrow> clean_url v \<noteq> v"
    using slice_to_neg_shorter [of v "''/api''" 3] by (auto simp: clean_url_def)
  have b: "endswith v ''/'' \<Longrightarrow> clean_url v \<noteq> v"
    using slice_to_neg_shorter [of v "''/api''" 3] slice_to_neg_shorter [of v "''/''" 0]
    by (auto simp: clean_url_def)
  have c: "\<not> endswith v ''/api'' \<Longrightarrow> \<not> endswith v ''/'' \<Longrightarrow> clean_url v = v"
    by (simp add: clean_url_def)
  show ?thesis using a b c by blast
qed

section \<open>Helper facts on the stop-sequence loop\<close>

lemma strip_stop_sequences_append:
  "strip_stop_sequences t (xs @ ys) = strip_stop_sequences (strip_stop_sequences t xs) ys"
  by (induction xs arbitrary: t) simp_all

lemma strip_stop_sequences_no_match:
  "\<forall>q\<in>set qs. \<not> endswith t q \<Longrightarrow> strip_stop_sequences t qs = t"
  by (induction qs) simp_all

lemma strip_stop_sequences_first_match:
  assumes "\<forall>p\<in>set pre. \<not> endswith t p" and "endswith t s" and "s \<noteq> []"
  shows "strip_stop_sequences t (pre @ s # post)
         = strip_stop_sequences (rstrip (take (length t - length s) t)) post"
  using assms
  by (simp add: strip_stop_sequences_append strip_stop_sequences_no_match slice_to_neg_def)

section \<open>Helper facts on the generation call\<close>

lemmas string_ops = strip_def lstrip_def rstrip_def endswith_def slice_to_neg_def isspace_def whitespace_def
lemmas exchange_ops = and_then_def raise_for_status_def response_json_def always_def ok_response_def
lemmas shape_ops = expected_shape_def results_text_def text_payload_def

lemma call_text:
  assumes "http (Post (generate_url self) (JObj (KoboldApiLLM_get_parameters self prompt stop))) = Inr response"
      and "raise_for_status response = Inr ()"
      and "response_json response = Inr json_response"
      and "expected_shape json_response = Inr True"
      and "results_text json_response = Inr t"
  shows "KoboldApiLLM_call self http prompt stop = Inr (postprocess t stop)"
  using assms by (simp add: KoboldApiLLM_call_def and_then_def)

lemma text_payload_shape: "expected_shape (text_payload raw) = Inr True"
  by (simp add: shape_ops and_then_def)

lemma text_payload_text: "results_text (text_payload raw) = Inr (strip raw)"
  by (simp add: shape_ops and_then_def)

lemma call_text_payload:
  "KoboldApiLLM_call self (always (ok_response (text_payload raw))) prompt stop
     = Inr (postprocess (strip raw) stop)"
proof (rule call_text)
  show "always (ok_response (text_payload raw))
          (Post (generate_url self) (JObj (KoboldApiLLM_get_parameters self prompt stop)))
        = Inr (ok_response (text_payload raw))"
    by (simp add: always_def)
  show "raise_for_status (ok_response (text_payload raw)) = Inr ()"
    by (simp add: raise_for_status_def ok_response_def)
  show "response_json (ok_response (text_payload raw)) = Inr (text_payload raw)"
    by (simp add: response_json_def ok_response_def)
  show "expected_shape (text_payload raw) = Inr True"
    by (rule text_payload_shape)
  show "results_text (text_payload raw) = Inr (strip raw)"
    by (rule text_payload_text)
qed

section \<open>Helper facts on request building\<close>

lemma get_parameters_keys:
  "map fst (KoboldApiLLM_get_parameters self prompt stop)
     = [''prompt'', ''use_story'', ''use_authors_note'', ''use_world_info'', ''use_memory'',
        ''max_context_length'', ''max_length'', ''rep_pen'', ''rep_pen_range'',
        ''rep_pen_slope'', ''temperature'', ''tfs'', ''top_a'', ''top_p'', ''top_k'',
        ''typical'']
       @ (if stop = None \<or> stop = Some [] then [] else [''stop_sequence''])"
proof (cases stop)
  case None
  then show ?thesis by (simp add: KoboldApiLLM_get_parameters_def)
next
  case (Some sequences)
  then show ?thesis
    by (cases sequences) (simp_all add: KoboldApiLLM_get_parameters_def)
qed

lemma get_parameters_prompt:
  "map_of (KoboldApiLLM_get_parameters self prompt stop) ''prompt'' = Some (JStr prompt)"
proof (cases stop)
  case None
  then show ?thesis by (simp add: KoboldApiLLM_get_parameters_def)
next
  case (Some sequences)
  then show ?thesis
    by (cases sequences) (simp_all add: KoboldApiLLM_get_parameters_def)
qed

lemma get_parameters_stop_sequence:
  "map_of (KoboldApiLLM_get_parameters self prompt stop) ''stop_sequence''
     = (case stop of None \<Rightarrow> None | Some [] \<Rightarrow> None
        | Some (s # ss) \<Rightarrow> Some (JArr (map JStr (s # ss))))"
proof (cases stop)
  case None
  then show ?thesis by (simp add: KoboldApiLLM_get_parameters_def)
next
  case (Some sequences)
  then show ?thesis
    by (cases sequences) (simp_all add: KoboldApiLLM_get_parameters_def)
qed

lemma map_of_dict_set:
  "map_of (dict_set d key v) k = (if k = key then Some v else map_of d k)"
  by (induction d key v rule: dict_set.induct) auto

lemma keys_dict_set_new:
  "key \<notin> set (map fst d) \<Longrightarrow> map fst (dict_set d key v) = map fst d @ [key]"
  by (induction d key v rule: dict_set.induct) auto

lemma dict_set_new:
  "key \<notin> set (map fst d) \<Longrightarrow> dict_set d key v = d @ [(key, v)]"
  by (induction d key v rule: dict_set.induct) auto

lemma get_parameters_eq:
  "KoboldApiLLM_get_parameters self prompt stop
     = [(''prompt'', JStr prompt),
        (''use_story'', case use_story self of None \<Rightarrow> JNull | Some b \<Rightarrow> JBool b),
        (''use_authors_note'', case use_authors_note self of None \<Rightarrow> JNull | Some b \<Rightarrow> JBool b),
        (''use_world_info'', case use_world_info self of None \<Rightarrow> JNull | Some b \<Rightarrow> JBool b),
        (''use_memory'', case use_memory self of None \<Rightarrow> JNull | Some b \<Rightarrow> JBool b),
        (''max_context_length'', case max_context_length self of None \<Rightarrow> JNull | Some i \<Rightarrow> JInt i),
        (''max_length'', case max_length self of None \<Rightarrow> JNull | Some i \<Rightarrow> JInt i),
        (''rep_pen'', case rep_pen self of None \<Rightarrow> JNull | Some x \<Rightarrow> JFloat x),
        (''rep_pen_range'', case rep_pen_range self of None \<Rightarrow> JNull | Some i \<Rightarrow> JInt i),
        (''rep_pen_slope'', case rep_pen_slope self of None \<Rightarrow> JNull | Some x \<Rightarrow> JFloat x),
        (''temperature'', case temperature self of None \<Rightarrow> JNull | Some x \<Rightarrow> JFloat x),
        (''tfs'', case tfs self of None \<Rightarrow> JNull | Some x \<Rightarrow> JFloat x),
        (''top_a'', case top_a self of None \<Rightarrow> JNull | Some x \<Rightarrow> JFloat x),
        (''top_p'', case top_p self of None \<Rightarrow> JNull | Some x \<Rightarrow> JFloat x),
        (''top_k'', case top_k self of None \<Rightarrow> JNull | Some i \<Rightarrow> JInt i),
        (''typical'', case typical self of None \<Rightarrow> JNull | Some x \<Rightarrow> JFloat x)]
       @ (case stop of
            None \<Rightarrow> []
          | Some [] \<Rightarrow> []
          | Some (s # ss) \<Rightarrow> [(''stop_sequence'', JArr (map JStr (s # ss)))])"
proof (cases stop)
  case None
  then show ?thesis
    by (simp add: KoboldApiLLM_get_parameters_def json_bool_def json_int_def json_float_def)
next
  case (Some sequences)
  then show ?thesis
    by (cases sequences)
       (simp_all add: KoboldApiLLM_get_parameters_def json_bool_def json_int_def json_float_def)
qed

lemma get_parameters_genkeys_update:
  "KoboldApiLLM_get_parameters (self\<lparr>genkeys := g\<rparr>) prompt stop
     = KoboldApiLLM_get_parameters self prompt stop"
proof (cases stop)
  case None
  then show ?thesis by (simp add: KoboldApiLLM_get_parameters_def)
next
  case (Some sequences)
  then show ?thesis
    by (cases sequences) (simp_all add: KoboldApiLLM_get_parameters_def)
qed

lemma acall_body_eq:
  "acall_body self rng prompt stop channel_id =
     (if is_koboldcpp self
      then dict_set (KoboldApiLLM_get_parameters self prompt stop) ''genkey'' (JStr (new_genkey rng))
      else KoboldApiLLM_get_parameters self prompt stop)"
  by (simp add: acall_body_def acall_prepare_def Let_def get_parameters_genkeys_update)

text \<open>With a key registered, an exception that is no \<open>Exception\<close> leaves \<open>_stop\<close>.\<close>

lemma stop_with_key_can_raise:
  "genkeys self channel_id = Some k \<Longrightarrow>
   KoboldApiLLM_stop self (\<lambda>request. Inl KeyboardInterrupt) channel_id = (Inl KeyboardInterrupt, [])"
  by (simp add: KoboldApiLLM_stop_def stop_try_def is_Exception_def and_then_def)

section \<open>Helper facts on generation keys and on the non-blocking call\<close>

lemma random_choices_length: "length (random_choices population k rng) = k"
  by (induction k arbitrary: rng) simp_all

lemma random_choices_set:
  "population \<noteq> [] \<Longrightarrow> set (random_choices population k rng) \<subseteq> set population"
  by (induction k arbitrary: rng) simp_all

lemma random_choices_eq_iff:
  assumes "distinct population" and "population \<noteq> []"
  shows "random_choices population k r1 = random_choices population k r2
         \<longleftrightarrow> (\<forall>i<k. r1 i mod length population = r2 i mod length population)"
proof (induction k arbitrary: r1 r2)
  case 0
  show ?case by simp
next
  case (Suc k)
  have pos: "0 < length population" using assms(2) by simp
  have hd: "population ! (r1 0 mod length population) = population ! (r2 0 mod length population)
            \<longleftrightarrow> r1 0 mod length population = r2 0 mod length population"
    using assms(1) pos by (simp add: nth_eq_iff_index_eq)
  have split: "(\<forall>i<Suc k. P i) \<longleftrightarrow> P 0 \<and> (\<forall>i<k. P (Suc i))" for P
    by (metis less_Suc_eq_0_disj)
  show ?case
    by (simp add: hd Suc.IH split [of "\<lambda>i. r1 i mod length population = r2 i mod length population"])
qed

lemma genkey_alphabet_distinct: "distinct genkey_alphabet"
  by (simp add: genkey_alphabet_def)

lemma genkey_alphabet_length: "length genkey_alphabet = 36"
  by (simp add: genkey_alphabet_def)

lemma new_genkey_eq_iff:
  "new_genkey r1 = new_genkey r2 \<longleftrightarrow> (\<forall>i<10. r1 i mod 36 = r2 i mod 36)"
proof -
  have ne: "genkey_alphabet \<noteq> []" by (simp add: genkey_alphabet_def)
  show ?thesis
    unfolding new_genkey_def
    using random_choices_eq_iff [OF genkey_alphabet_distinct ne, of 10 r1 r2]
    by (simp add: genkey_alphabet_length)
qed

lemma acall_client:
  "fst (snd (KoboldApiLLM_acall self rng http prompt stop channel_id))
     = (if is_koboldcpp self then self\<lparr>genkeys := (genkeys self)(channel_id \<mapsto> new_genkey rng)\<rparr>
        else self)"
  by (simp add: KoboldApiLLM_acall_def acall_prepare_def Let_def)

lemma acall_rng:
  "fst (snd (snd (KoboldApiLLM_acall self rng http prompt stop channel_id)))
     = (if is_koboldcpp self then rng_advance 10 rng else rng)"
  by (simp add: KoboldApiLLM_acall_def acall_prepare_def Let_def)

lemma acall_out:
  "snd (snd (snd (KoboldApiLLM_acall self rng http prompt stop channel_id)))
     = (if is_koboldcpp self then [GenkeyLine (new_genkey rng)] else [])"
  by (simp add: KoboldApiLLM_acall_def acall_prepare_def Let_def)

lemma random_choices_numeral:
  "random_choices population (numeral k) rng =
     population ! (rng 0 mod length population)
       # random_choices population (pred_numeral k) (\<lambda>i. rng (Suc i))"
  by (simp add: numeral_eq_Suc)

lemma new_genkey_zero: "new_genkey (\<lambda>i. 0) = ''AAAAAAAAAA''"
  by (simp add: new_genkey_def genkey_alphabet_def random_choices_numeral)

lemma new_genkey_id: "new_genkey (\<lambda>i. i) = ''ABCDEFGHIJ''"
  by (simp add: new_genkey_def genkey_alphabet_def random_choices_numeral)

lemma new_genkey_id10: "new_genkey (rng_advance 10 (\<lambda>i. i)) = ''KLMNOPQRST''"
  by (simp add: new_genkey_def genkey_alphabet_def random_choices_numeral rng_advance_def)

lemma acall_result:
  "fst (KoboldApiLLM_acall self rng http prompt stop channel_id)
     = acall_exchange (fst (acall_prepare self rng prompt stop channel_id)) http
         (acall_body self rng prompt stop channel_id) stop"
  by (simp add: KoboldApiLLM_acall_def acall_body_def split: prod.splits)

lemma acall_prepare_client:
  "fst (acall_prepare self rng prompt stop channel_id)
     = (if is_koboldcpp self then self\<lparr>genkeys := (genkeys self)(channel_id \<mapsto> new_genkey rng)\<rparr>
        else self)"
  by (simp add: acall_prepare_def Let_def)

lemma generate_url_genkeys_update: "generate_url (self\<lparr>genkeys := g\<rparr>) = generate_url self"
  by (simp add: generate_url_def)

lemma acall_exchange_genkeys_update:
  "acall_exchange (self\<lparr>genkeys := g\<rparr>) http data stop = acall_exchange self http data stop"
  by (simp add: acall_exchange_def generate_url_genkeys_update)

lemma acall_twice_unfold:
  "acall_twice self rng http1 http2 prompt1 prompt2 stop1 stop2 channel_id =
     (let a1 = KoboldApiLLM_acall self rng http1 prompt1 stop1 channel_id;
          a2 = KoboldApiLLM_acall (fst (snd a1)) (fst (snd (snd a1))) http2 prompt2 stop2 channel_id
      in ((fst a1, fst a2), fst (snd a2), fst (snd (snd a2)),
          snd (snd (snd a1)) @ snd (snd (snd a2))))"
  by (simp add: acall_twice_def Let_def split: prod.splits)

lemma acall_twice_client:
  "is_koboldcpp self \<Longrightarrow>
   fst (snd (acall_twice self rng http1 http2 prompt1 prompt2 stop1 stop2 channel_id))
     = self\<lparr>genkeys := (genkeys self)(channel_id \<mapsto> new_genkey (rng_advance 10 rng))\<rparr>"
  by (simp add: acall_twice_unfold Let_def acall_client acall_rng)

lemma acall_twice_out:
  "is_koboldcpp self \<Longrightarrow>
   snd (snd (snd (acall_twice self rng http1 http2 prompt1 prompt2 stop1 stop2 channel_id)))
     = [GenkeyLine (new_genkey rng), GenkeyLine (new_genkey (rng_advance 10 rng))]"
  by (simp add: acall_twice_unfold Let_def acall_client acall_rng acall_out)

section \<open>Helper facts on response handling and on the dialect probe\<close>

lemma and_then_Inl:
  "and_then m f = Inl e \<longleftrightarrow> m = Inl e \<or> (\<exists>x. m = Inr x \<and> f x = Inl e)"
  by (cases m) (simp_all add: and_then_def)

lemma py_in_error: "py_in key v = Inl e \<Longrightarrow> lookup_error e"
  by (cases v) (auto simp: lookup_error_def)

lemma py_len_error: "py_len v = Inl e \<Longrightarrow> lookup_error e"
  by (cases v) (auto simp: lookup_error_def)

lemma py_getitem_error: "py_getitem v key = Inl e \<Longrightarrow> lookup_error e"
  by (cases v) (auto simp: lookup_error_def split: option.splits)

lemma py_index0_error: "py_index0 v = Inl e \<Longrightarrow> lookup_error e"
  by (cases v rule: py_index0.cases) (auto simp: lookup_error_def)

lemma py_strip_error: "py_strip v = Inl e \<Longrightarrow> lookup_error e"
  by (cases v) (auto simp: lookup_error_def)

lemma expected_shape_error: "expected_shape j = Inl e \<Longrightarrow> lookup_error e"
  unfolding expected_shape_def
  by (auto simp: and_then_Inl split: if_splits
      dest: py_in_error py_len_error py_getitem_error py_index0_error)

lemma results_text_error: "results_text j = Inl e \<Longrightarrow> lookup_error e"
  unfolding results_text_def
  by (auto simp: and_then_Inl dest: py_getitem_error py_index0_error py_strip_error)

lemma lookup_error_simps [simp]:
  "\<not> lookup_error (HTTPError n)" "\<not> lookup_error (UnexpectedFormat j)"
  by (simp_all add: lookup_error_def)

lemma map_of_Some_key: "map_of kvs k = Some v \<Longrightarrow> k \<in> fst ` set kvs"
  by (metis domI dom_map_of_conv_image_fst)

lemma expected_shape_of_shape: "results_text_shape j \<Longrightarrow> expected_shape j = Inr True"
  unfolding results_text_shape_def expected_shape_def
  by (auto simp: and_then_def dest: map_of_Some_key split: json.splits option.splits list.splits)

lemma expected_shape_no_results:
  "map_of kvs ''results'' = None \<Longrightarrow> expected_shape (JObj kvs) = Inr False"
  by (simp add: expected_shape_def and_then_def map_of_eq_None_iff)

lemma expected_shape_empty_results:
  "map_of kvs ''results'' = Some (JArr []) \<Longrightarrow> expected_shape (JObj kvs) = Inr False"
  by (auto simp: expected_shape_def and_then_def dest: map_of_Some_key)

lemma expected_shape_no_text:
  "map_of kvs ''results'' = Some (JArr (JObj entries # rest)) \<Longrightarrow> map_of entries ''text'' = None
   \<Longrightarrow> expected_shape (JObj kvs) = Inr False"
  by (auto simp: expected_shape_def and_then_def map_of_eq_None_iff dest: map_of_Some_key)

lemma call_after_response:
  assumes "http (Post (generate_url self) (JObj (KoboldApiLLM_get_parameters self prompt stop)))
             = Inr response"
  shows "KoboldApiLLM_call self http prompt stop =
           and_then (raise_for_status response) (\<lambda>_.
             and_then (response_json response) (\<lambda>json_response.
               and_then (expected_shape json_response) (\<lambda>ok.
                 if ok then
                   and_then (results_text json_response) (\<lambda>text. Inr (postprocess text stop))
                 else Inl (UnexpectedFormat json_response))))"
  using assms by (simp add: KoboldApiLLM_call_def and_then_def)

lemma call_HTTPError_iff:
  assumes "http (Post (generate_url self) (JObj (KoboldApiLLM_get_parameters self prompt stop)))
             = Inr response"
  shows "KoboldApiLLM_call self http prompt stop = Inl (HTTPError code)
         \<longleftrightarrow> 400 \<le> status_code response \<and> status_code response < 600
             \<and> code = status_code response"
  unfolding call_after_response [where http = http, OF assms]
  by (auto simp: and_then_Inl raise_for_status_def response_json_def
      split: if_splits content.splits
      dest: expected_shape_error results_text_error)

lemma call_UnexpectedFormat_iff:
  assumes "http (Post (generate_url self) (JObj (KoboldApiLLM_get_parameters self prompt stop)))
             = Inr response"
  shows "KoboldApiLLM_call self http prompt stop = Inl (UnexpectedFormat j)
         \<longleftrightarrow> \<not> (400 \<le> status_code response \<and> status_code response < 600)
             \<and> content response = Document j \<and> expected_shape j = Inr False"
  unfolding call_after_response [where http = http, OF assms]
  by (auto simp: and_then_Inl raise_for_status_def response_json_def
      split: if_splits content.splits
      dest: expected_shape_error results_text_error)

lemma check_version_extended:
  assumes "probe http (clean_url (endpoint self) @ ''/api/extra/version'') = Inr json_response"
      and "and_then (py_getitem json_response ''version'') pyfloat = Inr version"
  shows "KoboldApiLLM_check_version self http pyfloat
           = (Inr version, self\<lparr>is_koboldcpp := True\<rparr>, [RunningKoboldcpp])"
  using assms by (simp add: KoboldApiLLM_check_version_def)

lemma check_version_basic_after_failure:
  assumes "probe http (clean_url (endpoint self) @ ''/api/extra/version'') = Inl e"
      and "probe http (clean_url (endpoint self) @ ''/api/v1/version'') = Inr json_response"
  shows "KoboldApiLLM_check_version self http pyfloat
           = (Inr 0, self\<lparr>is_koboldcpp := False\<rparr>, [RunningKoboldAI])"
  using assms by (simp add: KoboldApiLLM_check_version_def check_version_basic_def)

lemma check_version_both_fail:
  assumes "probe http (clean_url (endpoint self) @ ''/api/extra/version'') = Inl e"
      and "probe http (clean_url (endpoint self) @ ''/api/v1/version'') = Inl e'"
  shows "KoboldApiLLM_check_version self http pyfloat = (Inl NotRunning, self, [])"
  using assms by (simp add: KoboldApiLLM_check_version_def check_version_basic_def)

lemma check_version_unusable_version:
  assumes "probe http (clean_url (endpoint self) @ ''/api/extra/version'') = Inr json_response"
      and "and_then (py_getitem json_response ''version'') pyfloat = Inl e"
      and "probe http (clean_url (endpoint self) @ ''/api/v1/version'') = Inl e'"
  shows "KoboldApiLLM_check_version self http pyfloat
           = (Inl NotRunning, self\<lparr>is_koboldcpp := True\<rparr>, [RunningKoboldcpp])"
  using assms by (simp add: KoboldApiLLM_check_version_def check_version_basic_def Let_def)

section \<open>Helper facts on the two call modes\<close>

lemma exchange_agrees:
  assumes "status_code r < 400" and "json_content_type r" and "content r = Document j"
  shows "raise_for_status r = Inr ()" and "response_json r = Inr j"
    and "aio_raise_for_status r = Inr ()" and "aio_json r = Inr j"
  using assms
  by (simp_all add: raise_for_status_def response_json_def aio_raise_for_status_def aio_json_def)

lemma acall_exchange_after_response:
  assumes "http (Post (generate_url self) (JObj data)) = Inr response"
  shows "acall_exchange self http data stop =
           and_then (aio_raise_for_status response) (\<lambda>_.
             and_then (aio_json response) (\<lambda>json_response.
               and_then (expected_shape json_response) (\<lambda>ok.
                 if ok then
                   and_then (results_text json_response) (\<lambda>text. Inr (postprocess text stop))
                 else Inl (UnexpectedFormat json_response))))"
  using assms by (simp add: acall_exchange_def and_then_def)

lemma acall_result_exchange:
  "fst (KoboldApiLLM_acall self rng http prompt stop channel_id)
     = acall_exchange self http (acall_body self rng prompt stop channel_id) stop"
  by (simp add: acall_result acall_prepare_client acall_exchange_genkeys_update)

lemma modes_agree_on_document:
  assumes a: "http (Post (generate_url self) (JObj (acall_body self rng prompt stop channel_id)))
                = Inr response"
      and c: "http' (Post (generate_url self) (JObj (KoboldApiLLM_get_parameters self prompt stop)))
                = Inr response"
      and ok: "status_code response < 400" "json_content_type response"
              "content response = Document j"
  shows "fst (KoboldApiLLM_acall self rng http prompt stop channel_id)
           = KoboldApiLLM_call self http' prompt stop"
  unfolding acall_result_exchange
    acall_exchange_after_response [where http = http, OF a]
    call_after_response [where http = http', OF c]
  by (simp add: exchange_agrees [OF ok] and_then_def)

lemma modes_on_error_status:
  assumes a: "http (Post (generate_url self) (JObj (acall_body self rng prompt stop channel_id)))
                = Inr response"
      and c: "http' (Post (generate_url self) (JObj (KoboldApiLLM_get_parameters self prompt stop)))
                = Inr response"
      and err: "400 \<le> status_code response" "status_code response < 600"
  shows "KoboldApiLLM_call self http' prompt stop = Inl (HTTPError (status_code response))"
    and "fst (KoboldApiLLM_acall self rng http prompt stop channel_id)
           = Inl (ClientResponseError (status_code response))"
  unfolding acall_result_exchange
    acall_exchange_after_response [where http = http, OF a]
    call_after_response [where http = http', OF c]
  using err by (simp_all add: raise_for_status_def aio_raise_for_status_def and_then_def)

lemma acall_failures:
  assumes a: "http (Post (generate_url self) (JObj (acall_body self rng prompt stop channel_id)))
                = Inr response"
  shows "400 \<le> status_code response \<Longrightarrow>
           fst (KoboldApiLLM_acall self rng http prompt stop channel_id)
             = Inl (ClientResponseError (status_code response))"
    and "status_code response < 400 \<Longrightarrow> \<not> json_content_type response \<Longrightarrow>
           fst (KoboldApiLLM_acall self rng http prompt stop channel_id) = Inl ContentTypeError"
    and "status_code response < 400 \<Longrightarrow> json_content_type response \<Longrightarrow>
           content response = Blank \<Longrightarrow>
           fst (KoboldApiLLM_acall self rng http prompt stop channel_id) = Inl TypeError"
    and "status_code response < 400 \<Longrightarrow> json_content_type response \<Longrightarrow>
           content response = NotJson \<Longrightarrow>
           fst (KoboldApiLLM_acall self rng http prompt stop channel_id) = Inl StdJSONDecodeError"
  unfolding acall_result_exchange acall_exchange_after_response [where http = http, OF a]
  by (simp_all add: aio_raise_for_status_def aio_json_def and_then_def expected_shape_def)

lemma acall_rest:
  "snd (KoboldApiLLM_acall self rng http prompt stop channel_id)
     = (if is_koboldcpp self
        then (self\<lparr>genkeys := (genkeys self)(channel_id \<mapsto> new_genkey rng)\<rparr>,
              rng_advance 10 rng, [GenkeyLine (new_genkey rng)])
        else (self, rng, []))"
  by (simp add: KoboldApiLLM_acall_def acall_prepare_def Let_def)

section \<open>Claims on endpoint normalization\<close>

text \<open>
  C7, the claim as stated: normalization is idempotent. It is not: the code strips one
  suffix per call, so a URL ending in \<open>/api/\<close> loses the slash in the first call and
  \<open>/api\<close> in the second.
\<close>

theorem C7_idempotent_counterexample:
  "clean_url (clean_url ''http://h:5000/api/'') \<noteq> clean_url ''http://h:5000/api/''"
  by (simp add: clean_url_def endswith_def slice_to_neg_def)

text \<open>
  C7, amended: the three URLs of the claim normalize to \<open>http://h:5000\<close>; one call
  strips at most one trailing \<open>/api\<close> or one trailing \<open>/\<close> (the result is the URL
  itself, or the URL without one of the two suffixes); and normalizing twice equals
  normalizing once exactly when the normalized URL ends in neither suffix.
\<close>

theorem C7_clean_url:
  "clean_url ''http://h:5000/api'' = ''http://h:5000''
   \<and> clean_url ''http://h:5000/'' = ''http://h:5000''
   \<and> clean_url ''http://h:5000'' = ''http://h:5000''
   \<and> (url = clean_url url \<or> url = clean_url url @ ''/api'' \<or> url = clean_url url @ ''/'')
   \<and> (clean_url (clean_url url) = clean_url url
        \<longleftrightarrow> \<not> endswith (clean_url url) ''/api'' \<and> \<not> endswith (clean_url url) ''/'')"
proof -
  have ex: "clean_url ''http://h:5000/api'' = ''http://h:5000''"
      "clean_url ''http://h:5000/'' = ''http://h:5000''"
      "clean_url ''http://h:5000'' = ''http://h:5000''"
    by (simp_all add: clean_url_def endswith_def slice_to_neg_def)
  have one: "url = clean_url url \<or> url = clean_url url @ ''/api'' \<or> url = clean_url url @ ''/''"
    using endswith_cut [of url "''/api''" 4] endswith_cut [of url "''/''" 1]
    by (auto simp: clean_url_def slice_to_neg_def)
  have idem: "clean_url (clean_url url) = clean_url url
        \<longleftrightarrow> \<not> endswith (clean_url url) ''/api'' \<and> \<not> endswith (clean_url url) ''/''"
    by (rule clean_url_fixed_iff)
  show ?thesis using ex one idem by blast
qed

section \<open>Claims on stop-sequence stripping\<close>

text \<open>
  C1, the claim as stated: at most one stop sequence is removed. The loop goes on after
  a match: for the text \<open>a b\<close> and the sequences \<open>b\<close>, \<open>a\<close> the code strips
  \<open>b\<close>, trims, and then strips \<open>a\<close> as well, where the specification's reading
  stops at \<open>a\<close>.
\<close>

theorem C1_single_strip_counterexample:
  "postprocess ''a b'' (Some [''b'', ''a'']) = []
   \<and> strip_first_match ''a b'' [''b'', ''a''] = ''a''"
  by (simp add: postprocess_def endswith_def rstrip_def slice_to_neg_def isspace_def whitespace_def)

text \<open>
  C1, amended: the sequences are checked in order, each against the suffix of the text as
  the earlier ones left it. When the text ends with the non-empty sequence \<open>s\<close> and with
  none of the sequences before it, \<open>s\<close> is removed and trailing whitespace trimmed, and
  the check goes on with the sequences after \<open>s\<close> on the shortened text. So exactly one
  sequence is stripped, as in the specification's reading, when none of the later ones
  matches the new suffix.
\<close>

theorem C1_strip_continues:
  assumes "\<forall>p\<in>set pre. \<not> endswith text p" and "endswith text s" and "s \<noteq> []"
  shows "postprocess text (Some (pre @ s # post))
           = strip_stop_sequences (rstrip (take (length text - length s) text)) post
         \<and> ((\<forall>q\<in>set post. \<not> endswith (rstrip (take (length text - length s) text)) q)
              \<longrightarrow> postprocess text (Some (pre @ s # post))
                    = rstrip (take (length text - length s) text))
         \<and> ((\<forall>q\<in>set post. \<not> endswith (rstrip (take (length text - length s) text)) q)
              \<longrightarrow> postprocess text (Some (pre @ s # post))
                    = strip_first_match text (pre @ s # post))"
proof -
  let ?r = "rstrip (take (length text - length s) text)"
  have step: "postprocess text (Some (pre @ s # post)) = strip_stop_sequences ?r post"
    using assms by (simp add: postprocess_def strip_stop_sequences_first_match)
  have first: "strip_first_match text (pre @ s # post) = ?r"
    using assms(1,2) by (induction pre) simp_all
  show ?thesis
    using step first by (simp add: strip_stop_sequences_no_match)
qed

theorem C1_strip_continues_witness:
  "postprocess ''a b'' (Some [''x'', ''b'', ''a'']) = []"
proof -
  have h1: "\<forall>p\<in>set [''x'']. \<not> endswith ''a b'' p" by (simp add: endswith_def)
  have h2: "endswith ''a b'' ''b''" by (simp add: endswith_def)
  have h3: "''b'' \<noteq> []" by simp
  have r: "rstrip (take (length ''a b'' - length ''b'') ''a b'') = ''a''"
    by (simp add: rstrip_def isspace_def whitespace_def)
  have e: "strip_stop_sequences ''a'' [''a''] = []"
    by (simp add: endswith_def rstrip_def slice_to_neg_def)
  have "postprocess ''a b'' (Some ([''x''] @ ''b'' # [''a'']))
          = strip_stop_sequences (rstrip (take (length ''a b'' - length ''b'') ''a b'')) [''a'']"
    using C1_strip_continues [OF h1 h2 h3, of "[''a'']"] by (rule conjunct1)
  then show ?thesis by (simp only: r e append.simps)
qed

section \<open>Claims on the returned text\<close>

text \<open>
  C3, the claim as stated: when the stripped text ends with exactly one of the sequences,
  the result is the text without that suffix, trimmed. The stripped text \<open>foo bar\<close> ends
  with \<open>bar\<close> and not with \<open>foo\<close>, and without \<open>bar\<close> it trims to \<open>foo\<close>; the
  call returns the empty string, because the loop then finds \<open>foo\<close> at the end of what is
  left.
\<close>

theorem C3_exactly_one_counterexample:
  "KoboldApiLLM_call (default_client ''http://h:5000'')
      (always (ok_response (text_payload '' foo bar ''))) ''p'' (Some [''bar'', ''foo'']) = Inr []
   \<and> strip '' foo bar '' = ''foo bar''
   \<and> endswith ''foo bar'' ''bar'' \<and> \<not> endswith ''foo bar'' ''foo''
   \<and> rstrip (take (length ''foo bar'' - length ''bar'') ''foo bar'') = ''foo''"
  by (simp add: call_text_payload postprocess_def string_ops)

text \<open>
  C3, amended. Let \<open>t\<close> be \<open>results[0].text\<close> after the initial strip, for a response
  with no error status whose body has the expected shape. If \<open>t\<close> ends with the non-empty
  sequence \<open>s\<close> of the list and with none of the sequences before \<open>s\<close>, and \<open>t\<close> without
  \<open>s\<close>, trimmed on the right, ends with none of the sequences after \<open>s\<close>, the call
  returns that trimmed remainder. If \<open>t\<close> ends with none of the sequences, the call
  returns \<open>t\<close>. For the response \<open>{"results": [{"text": "Hello world.   "}]}\<close> and the
  stop sequences \<open>["world."]\<close> the call returns \<open>Hello\<close>.
\<close>

theorem C3_call_strips_stop_sequence:
  assumes "http (Post (generate_url self) (JObj (KoboldApiLLM_get_parameters self prompt (Some stop))))
             = Inr response"
      and "raise_for_status response = Inr ()"
      and "response_json response = Inr json_response"
      and "expected_shape json_response = Inr True"
      and "results_text json_response = Inr t"
  shows "(stop = pre @ s # post \<and> (\<forall>p\<in>set pre. \<not> endswith t p) \<and> endswith t s \<and> s \<noteq> []
            \<and> (\<forall>q\<in>set post. \<not> endswith (rstrip (take (length t - length s) t)) q)
          \<longrightarrow> KoboldApiLLM_call self http prompt (Some stop)
                = Inr (rstrip (take (length t - length s) t)))
       \<and> ((\<forall>q\<in>set stop. \<not> endswith t q)
          \<longrightarrow> KoboldApiLLM_call self http prompt (Some stop) = Inr t)
       \<and> KoboldApiLLM_call self' (always (ok_response (text_payload ''Hello world.   '')))
            prompt' (Some [''world.'']) = Inr ''Hello''"
proof -
  have c: "KoboldApiLLM_call self http prompt (Some stop) = Inr (strip_stop_sequences t stop)"
    using assms by (simp add: call_text postprocess_def)
  have hello: "KoboldApiLLM_call self' (always (ok_response (text_payload ''Hello world.   '')))
            prompt' (Some [''world.'']) = Inr ''Hello''"
    by (simp add: call_text_payload postprocess_def string_ops)
  show ?thesis
    using c hello
    by (auto simp: strip_stop_sequences_first_match strip_stop_sequences_no_match)
qed

theorem C3_call_strips_stop_sequence_witness:
  "KoboldApiLLM_call (default_client ''http://h:5000'')
     (always (ok_response (text_payload '' Say: Hello world.   ''))) ''p''
     (Some [''Bye'', ''world.'', ''Hi'']) = Inr ''Say: Hello''
   \<and> KoboldApiLLM_call (default_client ''http://h:5000'')
     (always (ok_response (text_payload '' Say: Hello world.   ''))) ''p''
     (Some [''Bye'', ''Hi'']) = Inr ''Say: Hello world.''"
proof -
  let ?c = "default_client ''http://h:5000''"
  let ?r = "ok_response (text_payload '' Say: Hello world.   '')"
  have a1: "always ?r (Post (generate_url ?c) (JObj (KoboldApiLLM_get_parameters ?c ''p'' (Some stop)))) = Inr ?r"
    for stop by (simp add: always_def)
  have a2: "raise_for_status ?r = Inr ()" by (simp add: exchange_ops)
  have a3: "response_json ?r = Inr (text_payload '' Say: Hello world.   '')" by (simp add: exchange_ops)
  have a4: "expected_shape (text_payload '' Say: Hello world.   '') = Inr True"
    by (rule text_payload_shape)
  have a5: "results_text (text_payload '' Say: Hello world.   '') = Inr ''Say: Hello world.''"
    by (simp add: text_payload_text string_ops)
  have h: "[''Bye'', ''world.'', ''Hi''] = [''Bye''] @ ''world.'' # [''Hi'']
      \<and> (\<forall>p\<in>set [''Bye'']. \<not> endswith ''Say: Hello world.'' p)
      \<and> endswith ''Say: Hello world.'' ''world.'' \<and> ''world.'' \<noteq> []
      \<and> (\<forall>q\<in>set [''Hi'']. \<not> endswith
             (rstrip (take (length ''Say: Hello world.'' - length ''world.'') ''Say: Hello world.'')) q)"
    by (simp add: string_ops)
  have r: "rstrip (take (length ''Say: Hello world.'' - length ''world.'') ''Say: Hello world.'')
             = ''Say: Hello''"
    by (simp add: string_ops)
  have n: "\<forall>q\<in>set [''Bye'', ''Hi'']. \<not> endswith ''Say: Hello world.'' q"
    by (simp add: string_ops)
  have one: "KoboldApiLLM_call ?c (always ?r) ''p'' (Some [''Bye'', ''world.'', ''Hi''])
      = Inr (rstrip (take (length ''Say: Hello world.'' - length ''world.'') ''Say: Hello world.''))"
    using C3_call_strips_stop_sequence [where http = "always ?r" and self = ?c and prompt = "''p''"
        and stop = "[''Bye'', ''world.'', ''Hi'']" and response = ?r
        and json_response = "text_payload '' Say: Hello world.   ''"
        and t = "''Say: Hello world.''" and pre = "[''Bye'']" and s = "''world.''"
        and post = "[''Hi'']", OF a1 a2 a3 a4 a5] h
    by blast
  have none: "KoboldApiLLM_call ?c (always ?r) ''p'' (Some [''Bye'', ''Hi'']) = Inr ''Say: Hello world.''"
    using C3_call_strips_stop_sequence [where http = "always ?r" and self = ?c and prompt = "''p''"
        and stop = "[''Bye'', ''Hi'']" and response = ?r
        and json_response = "text_payload '' Say: Hello world.   ''"
        and t = "''Say: Hello world.''", OF a1 a2 a3 a4 a5] n
    by blast
  show ?thesis using one none by (simp only: r simp_thms)
qed

section \<open>Claims on the request body\<close>

text \<open>
  C4: for every prompt, the body built by \<open>_get_parameters\<close> has the prompt, unchanged,
  under \<open>prompt\<close>; its keys are the sixteen fields, followed by \<open>stop_sequence\<close>
  exactly when a non-empty stop list was given. Each sampling field carries the value of
  the client's field of that name (\<open>null\<close> for \<open>None\<close>), and \<open>stop_sequence\<close> carries
  the given strings in order. The body that \<open>_acall\<close> sends is this one, followed in
  extended mode by \<open>genkey\<close> with the fresh key, so it has the same prompt and fields.
\<close>

theorem C4_request_body:
  "map_of (KoboldApiLLM_get_parameters self prompt stop) ''prompt'' = Some (JStr prompt)
   \<and> map fst (KoboldApiLLM_get_parameters self prompt stop)
     = [''prompt'', ''use_story'', ''use_authors_note'', ''use_world_info'', ''use_memory'',
        ''max_context_length'', ''max_length'', ''rep_pen'', ''rep_pen_range'',
        ''rep_pen_slope'', ''temperature'', ''tfs'', ''top_a'', ''top_p'', ''top_k'',
        ''typical'']
       @ (if stop = None \<or> stop = Some [] then [] else [''stop_sequence''])
   \<and> (''stop_sequence'' \<in> set (map fst (KoboldApiLLM_get_parameters self prompt stop))
        \<longleftrightarrow> stop \<noteq> None \<and> stop \<noteq> Some [])
   \<and> KoboldApiLLM_get_parameters self prompt stop
     = [(''prompt'', JStr prompt),
        (''use_story'', case use_story self of None \<Rightarrow> JNull | Some b \<Rightarrow> JBool b),
        (''use_authors_note'', case use_authors_note self of None \<Rightarrow> JNull | Some b \<Rightarrow> JBool b),
        (''use_world_info'', case use_world_info self of None \<Rightarrow> JNull | Some b \<Rightarrow> JBool b),
        (''use_memory'', case use_memory self of None \<Rightarrow> JNull | Some b \<Rightarrow> JBool b),
        (''max_context_length'', case max_context_length self of None \<Rightarrow> JNull | Some i \<Rightarrow> JInt i),
        (''max_length'', case max_length self of None \<Rightarrow> JNull | Some i \<Rightarrow> JInt i),
        (''rep_pen'', case rep_pen self of None \<Rightarrow> JNull | Some x \<Rightarrow> JFloat x),
        (''rep_pen_range'', case rep_pen_range self of None \<Rightarrow> JNull | Some i \<Rightarrow> JInt i),
        (''rep_pen_slope'', case rep_pen_slope self of None \<Rightarrow> JNull | Some x \<Rightarrow> JFloat x),
        (''temperature'', case temperature self of None \<Rightarrow> JNull | Some x \<Rightarrow> JFloat x),
        (''tfs'', case tfs self of None \<Rightarrow> JNull | Some x \<Rightarrow> JFloat x),
        (''top_a'', case top_a self of None \<Rightarrow> JNull | Some x \<Rightarrow> JFloat x),
        (''top_p'', case top_p self of None \<Rightarrow> JNull | Some x \<Rightarrow> JFloat x),
        (''top_k'', case top_k self of None \<Rightarrow> JNull | Some i \<Rightarrow> JInt i),
        (''typical'', case typical self of None \<Rightarrow> JNull | Some x \<Rightarrow> JFloat x)]
       @ (case stop of
            None \<Rightarrow> []
          | Some [] \<Rightarrow> []
          | Some (s # ss) \<Rightarrow> [(''stop_sequence'', JArr (map JStr (s # ss)))])
   \<and> map_of (KoboldApiLLM_get_parameters self prompt stop) ''stop_sequence''
     = (case stop of
          None \<Rightarrow> None
        | Some [] \<Rightarrow> None
        | Some (s # ss) \<Rightarrow> Some (JArr (map JStr (s # ss))))
   \<and> map_of (acall_body self rng prompt stop channel_id) ''prompt'' = Some (JStr prompt)
   \<and> map fst (acall_body self rng prompt stop channel_id)
     = map fst (KoboldApiLLM_get_parameters self prompt stop)
       @ (if is_koboldcpp self then [''genkey''] else [])
   \<and> acall_body self rng prompt stop channel_id
     = KoboldApiLLM_get_parameters self prompt stop
       @ (if is_koboldcpp self then [(''genkey'', JStr (new_genkey rng))] else [])"
proof -
  have k: "''genkey'' \<notin> set (map fst (KoboldApiLLM_get_parameters self prompt stop))"
    by (simp add: get_parameters_keys)
  have s: "''stop_sequence'' \<in> set (map fst (KoboldApiLLM_get_parameters self prompt stop))
        \<longleftrightarrow> stop \<noteq> None \<and> stop \<noteq> Some []"
    by (simp add: get_parameters_keys)
  have b: "map fst (acall_body self rng prompt stop channel_id)
     = map fst (KoboldApiLLM_get_parameters self prompt stop)
       @ (if is_koboldcpp self then [''genkey''] else [])"
    using k by (simp add: acall_body_eq keys_dict_set_new)
  have p: "map_of (acall_body self rng prompt stop channel_id) ''prompt'' = Some (JStr prompt)"
    by (simp add: acall_body_eq map_of_dict_set get_parameters_prompt)
  have full: "acall_body self rng prompt stop channel_id
     = KoboldApiLLM_get_parameters self prompt stop
       @ (if is_koboldcpp self then [(''genkey'', JStr (new_genkey rng))] else [])"
    using k by (simp add: acall_body_eq dict_set_new)
  show ?thesis
    using get_parameters_prompt [of self prompt stop] get_parameters_keys [of self prompt stop]
      get_parameters_eq [of self prompt stop] get_parameters_stop_sequence [of self prompt stop]
      s b p full
    by blast
qed

section \<open>Claims on cancellation\<close>

text \<open>
  C2: for a channel with no entry in \<open>genkeys\<close>, \<open>_stop\<close> raises nothing to its
  caller, whatever the server would answer: reading the unbound local \<open>json\<close> raises
  inside the \<open>try\<close>, \<open>except Exception\<close> catches it, and the function prints the
  error and returns.
\<close>

theorem C2_stop_without_key:
  assumes "genkeys self channel_id = None"
  shows "KoboldApiLLM_stop self http channel_id = (Inr (), [ErrorAbortingWith UnboundLocalError])"
  using assms by (simp add: KoboldApiLLM_stop_def stop_try_def is_Exception_def)

theorem C2_stop_without_key_witness:
  "KoboldApiLLM_stop (default_client ''http://h:5000'') (always (ok_response (JObj []))) (Some ''42'')
     = (Inr (), [ErrorAbortingWith UnboundLocalError])"
proof -
  have "genkeys (default_client ''http://h:5000'') (Some ''42'') = None"
    by (simp add: default_client_def)
  then show ?thesis by (rule C2_stop_without_key)
qed

section \<open>Claims on the generation key registry\<close>

text \<open>
  C10: in extended mode the fresh key is in \<open>genkeys\<close>, under the channel, in the client
  as it is when the request is sent, and the same key is in the request body. The client
  after the call is that client, whatever the exchange gives; so when the call fails, the
  entry for the channel holds the new key.
\<close>

theorem C10_registry_written_before_request:
  assumes "is_koboldcpp self"
  shows "genkeys (fst (acall_prepare self rng prompt stop channel_id)) channel_id
           = Some (new_genkey rng)
       \<and> map_of (acall_body self rng prompt stop channel_id) ''genkey''
           = Some (JStr (new_genkey rng))
       \<and> fst (snd (KoboldApiLLM_acall self rng http prompt stop channel_id))
           = fst (acall_prepare self rng prompt stop channel_id)
       \<and> (\<forall>e. fst (KoboldApiLLM_acall self rng http prompt stop channel_id) = Inl e
              \<longrightarrow> genkeys (fst (snd (KoboldApiLLM_acall self rng http prompt stop channel_id)))
                     channel_id = Some (new_genkey rng))"
  using assms
  by (simp add: acall_prepare_client acall_client acall_body_eq map_of_dict_set)

theorem C10_registry_written_before_request_witness:
  "fst (KoboldApiLLM_acall (extended_client\<lparr>genkeys := [Some ''c'' \<mapsto> ''OLDKEY0000'']\<rparr>)
          (\<lambda>i. i) (always \<lparr>status_code = 500, json_content_type = False, content = Blank\<rparr>) ''p'' None (Some ''c''))
     = Inl (ClientResponseError 500)
   \<and> genkeys (fst (snd (KoboldApiLLM_acall
          (extended_client\<lparr>genkeys := [Some ''c'' \<mapsto> ''OLDKEY0000'']\<rparr>)
          (\<lambda>i. i) (always \<lparr>status_code = 500, json_content_type = False, content = Blank\<rparr>) ''p'' None (Some ''c''))))
        (Some ''c'') = Some ''ABCDEFGHIJ''"
proof -
  let ?c = "extended_client\<lparr>genkeys := [Some ''c'' \<mapsto> ''OLDKEY0000'']\<rparr>"
  let ?h = "always \<lparr>status_code = 500, json_content_type = False, content = Blank\<rparr>"
  have ext: "is_koboldcpp ?c" by (simp add: extended_client_def)
  have fails: "fst (KoboldApiLLM_acall ?c (\<lambda>i. i) ?h ''p'' None (Some ''c''))
      = Inl (ClientResponseError 500)"
    by (simp add: acall_result acall_exchange_def always_def and_then_def aio_raise_for_status_def)
  have "genkeys (fst (snd (KoboldApiLLM_acall ?c (\<lambda>i. i) ?h ''p'' None (Some ''c'')))) (Some ''c'')
          = Some (new_genkey (\<lambda>i. i))"
    using C10_registry_written_before_request [OF ext, of "\<lambda>i. i" "''p''" None "Some ''c''" ?h] fails
    by blast
  then show ?thesis using fails by (simp only: new_genkey_id simp_thms)
qed

text \<open>
  C8, the claim as stated: the two calls produce two different keys. The keys are what
  the generator delivers, and nothing compares them: a generator that repeats its ten
  draws gives the same key twice.
\<close>

theorem C8_equal_keys_counterexample:
  "snd (snd (snd (acall_twice extended_client (\<lambda>i. 0)
       (always (ok_response (text_payload ''one''))) (always (ok_response (text_payload ''two'')))
       ''p'' ''q'' None None (Some ''c''))))
     = [GenkeyLine ''AAAAAAAAAA'', GenkeyLine ''AAAAAAAAAA'']"
proof -
  have ext: "is_koboldcpp extended_client" by (simp add: extended_client_def)
  have adv: "rng_advance 10 (\<lambda>i. 0) = (\<lambda>i. 0)" by (simp add: rng_advance_def)
  show ?thesis by (simp add: acall_twice_out [OF ext] adv new_genkey_zero)
qed

text \<open>
  C8, amended: in extended mode two sequential calls for the same channel print, and
  send, the key drawn from the first ten raw values and then the key drawn from the next
  ten; each key has ten characters, all from the uppercase letters and digits; the two
  keys differ exactly when some draw differs from the draw ten places later, modulo 36;
  after the second call the registry is the initial one with the channel mapped to the
  second key.
\<close>

theorem C8_sequential_keys:
  assumes "is_koboldcpp self"
  shows "snd (snd (snd (acall_twice self rng http1 http2 prompt1 prompt2 stop1 stop2 channel_id)))
           = [GenkeyLine (new_genkey rng), GenkeyLine (new_genkey (rng_advance 10 rng))]
       \<and> length (new_genkey rng) = 10 \<and> set (new_genkey rng) \<subseteq> set genkey_alphabet
       \<and> (new_genkey rng \<noteq> new_genkey (rng_advance 10 rng)
            \<longleftrightarrow> (\<exists>i<10. rng i mod 36 \<noteq> rng (i + 10) mod 36))
       \<and> fst (snd (acall_twice self rng http1 http2 prompt1 prompt2 stop1 stop2 channel_id))
           = self\<lparr>genkeys := (genkeys self)(channel_id \<mapsto> new_genkey (rng_advance 10 rng))\<rparr>
       \<and> genkeys (fst (snd (acall_twice self rng http1 http2 prompt1 prompt2 stop1 stop2 channel_id)))
            channel_id = Some (new_genkey (rng_advance 10 rng))"
proof -
  have len: "length (new_genkey rng) = 10"
    by (simp add: new_genkey_def random_choices_length)
  have sub: "set (new_genkey rng) \<subseteq> set genkey_alphabet"
    unfolding new_genkey_def by (rule random_choices_set) (simp add: genkey_alphabet_def)
  have diff: "new_genkey rng \<noteq> new_genkey (rng_advance 10 rng)
            \<longleftrightarrow> (\<exists>i<10. rng i mod 36 \<noteq> rng (i + 10) mod 36)"
    by (auto simp: new_genkey_eq_iff rng_advance_def)
  show ?thesis
    using len sub diff acall_twice_out [OF assms] acall_twice_client [OF assms]
    by simp
qed

theorem C8_sequential_keys_witness:
  "snd (snd (snd (acall_twice extended_client (\<lambda>i. i)
       (always (ok_response (text_payload ''one''))) (always (ok_response (text_payload ''two'')))
       ''p'' ''q'' None None (Some ''c''))))
     = [GenkeyLine ''ABCDEFGHIJ'', GenkeyLine ''KLMNOPQRST'']
   \<and> genkeys (fst (snd (acall_twice extended_client (\<lambda>i. i)
       (always (ok_response (text_payload ''one''))) (always (ok_response (text_payload ''two'')))
       ''p'' ''q'' None None (Some ''c'')))) (Some ''c'') = Some ''KLMNOPQRST''"
proof -
  have ext: "is_koboldcpp extended_client" by (simp add: extended_client_def)
  note th = C8_sequential_keys [OF ext, of "\<lambda>i. i"
       "always (ok_response (text_payload ''one''))" "always (ok_response (text_payload ''two''))"
       "''p''" "''q''" None None "Some ''c''"]
  from th have out: "snd (snd (snd (acall_twice extended_client (\<lambda>i. i)
       (always (ok_response (text_payload ''one''))) (always (ok_response (text_payload ''two'')))
       ''p'' ''q'' None None (Some ''c''))))
     = [GenkeyLine (new_genkey (\<lambda>i. i)), GenkeyLine (new_genkey (rng_advance 10 (\<lambda>i. i)))]"
    by (rule conjunct1)
  from th have reg: "genkeys (fst (snd (acall_twice extended_client (\<lambda>i. i)
       (always (ok_response (text_payload ''one''))) (always (ok_response (text_payload ''two'')))
       ''p'' ''q'' None None (Some ''c'')))) (Some ''c'') = Some (new_genkey (rng_advance 10 (\<lambda>i. i)))"
    by blast
  show ?thesis using out reg by (simp only: new_genkey_id new_genkey_id10 simp_thms)
qed

section \<open>Claims on the two call modes\<close>

text \<open>
  C9, the claim as stated: both modes build the same request body, handle the response
  alike and differ only in how they wait. In extended mode the non-blocking mode adds
  \<open>genkey\<close> to the body and writes the registry; the blocking mode does neither. And
  the two modes read the response through different HTTP libraries: for a response with
  status 600 and a well-formed body the blocking mode returns the text, and the
  non-blocking mode raises its library's status error.
\<close>

theorem C9_modes_differ_counterexample:
  "map_of (acall_body extended_client (\<lambda>i. i) ''p'' None (Some ''c'')) ''genkey''
     = Some (JStr ''ABCDEFGHIJ'')
   \<and> map_of (KoboldApiLLM_get_parameters extended_client ''p'' None) ''genkey'' = None
   \<and> genkeys (fst (snd (KoboldApiLLM_acall extended_client (\<lambda>i. i)
        (always (ok_response (text_payload ''hi''))) ''p'' None (Some ''c'')))) (Some ''c'')
      = Some ''ABCDEFGHIJ''
   \<and> genkeys extended_client (Some ''c'') = None
   \<and> KoboldApiLLM_call (default_client ''http://h:5000'')
        (always \<lparr>status_code = 600, json_content_type = True, content = Document (text_payload ''hi'')\<rparr>)
        ''p'' None = Inr ''hi''
   \<and> fst (KoboldApiLLM_acall (default_client ''http://h:5000'') (\<lambda>i. i)
        (always \<lparr>status_code = 600, json_content_type = True, content = Document (text_payload ''hi'')\<rparr>)
        ''p'' None (Some ''c'')) = Inl (ClientResponseError 600)"
proof -
  have ext: "is_koboldcpp extended_client" by (simp add: extended_client_def)
  have a: "map_of (acall_body extended_client (\<lambda>i. i) ''p'' None (Some ''c'')) ''genkey''
     = Some (JStr ''ABCDEFGHIJ'')"
    using ext by (simp add: acall_body_eq map_of_dict_set new_genkey_id)
  have b: "map_of (KoboldApiLLM_get_parameters extended_client ''p'' None) ''genkey'' = None"
    by (simp add: KoboldApiLLM_get_parameters_def)
  have c: "genkeys (fst (snd (KoboldApiLLM_acall extended_client (\<lambda>i. i)
        (always (ok_response (text_payload ''hi''))) ''p'' None (Some ''c'')))) (Some ''c'')
      = Some ''ABCDEFGHIJ''"
    using ext by (simp add: acall_client new_genkey_id)
  have d: "genkeys extended_client (Some ''c'') = None"
    by (simp add: extended_client_def default_client_def)
  have e: "KoboldApiLLM_call (default_client ''http://h:5000'')
        (always \<lparr>status_code = 600, json_content_type = True, content = Document (text_payload ''hi'')\<rparr>)
        ''p'' None = Inr ''hi''"
    by (simp add: KoboldApiLLM_call_def always_def and_then_def raise_for_status_def
        response_json_def text_payload_shape text_payload_text postprocess_def string_ops)
  have f: "fst (KoboldApiLLM_acall (default_client ''http://h:5000'') (\<lambda>i. i)
        (always \<lparr>status_code = 600, json_content_type = True, content = Document (text_payload ''hi'')\<rparr>)
        ''p'' None (Some ''c'')) = Inl (ClientResponseError 600)"
    by (simp add: acall_result_exchange acall_exchange_def always_def and_then_def
        aio_raise_for_status_def)
  show ?thesis using a b c d e f by blast
qed

text \<open>
  C9, amended. The non-blocking mode sends the body of the blocking mode, with
  \<open>genkey\<close> added in extended mode; in extended mode it records the key, advances the
  generator and prints the key, and in basic mode it changes nothing. When the server
  gives both requests the same response, with a status below 400, a JSON content type and
  a body that is a JSON document, the two modes return the same text or fail with the
  same exception. For a status from 400 to 599 both fail, each with the status error of
  its HTTP library. The non-blocking mode also fails with that error for every status
  from 400 on; for a status below 400 it fails with \<open>ContentTypeError\<close> on a content
  type that is no JSON type, and, on a JSON content type, with \<open>TypeError\<close> on a blank
  body, which its library decodes to \<open>None\<close>, and with the decoder's error on a body
  that is no JSON document.
\<close>

theorem C9_call_modes:
  "acall_body self rng prompt stop channel_id
     = (if is_koboldcpp self
        then dict_set (KoboldApiLLM_get_parameters self prompt stop) ''genkey''
               (JStr (new_genkey rng))
        else KoboldApiLLM_get_parameters self prompt stop)
   \<and> snd (KoboldApiLLM_acall self rng http prompt stop channel_id)
     = (if is_koboldcpp self
        then (self\<lparr>genkeys := (genkeys self)(channel_id \<mapsto> new_genkey rng)\<rparr>,
              rng_advance 10 rng, [GenkeyLine (new_genkey rng)])
        else (self, rng, []))
   \<and> (http (Post (generate_url self) (JObj (acall_body self rng prompt stop channel_id)))
          = Inr response
        \<and> http' (Post (generate_url self) (JObj (KoboldApiLLM_get_parameters self prompt stop)))
          = Inr response
        \<and> status_code response < 400 \<and> json_content_type response
        \<and> content response = Document j
      \<longrightarrow> fst (KoboldApiLLM_acall self rng http prompt stop channel_id)
            = KoboldApiLLM_call self http' prompt stop)
   \<and> (http (Post (generate_url self) (JObj (acall_body self rng prompt stop channel_id)))
          = Inr response
        \<and> http' (Post (generate_url self) (JObj (KoboldApiLLM_get_parameters self prompt stop)))
          = Inr response
        \<and> 400 \<le> status_code response \<and> status_code response < 600
      \<longrightarrow> KoboldApiLLM_call self http' prompt stop = Inl (HTTPError (status_code response))
          \<and> fst (KoboldApiLLM_acall self rng http prompt stop channel_id)
            = Inl (ClientResponseError (status_code response)))
   \<and> (http (Post (generate_url self) (JObj (acall_body self rng prompt stop channel_id)))
          = Inr response
      \<longrightarrow> (400 \<le> status_code response
            \<longrightarrow> fst (KoboldApiLLM_acall self rng http prompt stop channel_id)
                  = Inl (ClientResponseError (status_code response)))
          \<and> (status_code response < 400 \<and> \<not> json_content_type response
            \<longrightarrow> fst (KoboldApiLLM_acall self rng http prompt stop channel_id)
                  = Inl ContentTypeError)
          \<and> (status_code response < 400 \<and> json_content_type response
              \<and> content response = Blank
            \<longrightarrow> fst (KoboldApiLLM_acall self rng http prompt stop channel_id) = Inl TypeError)
          \<and> (status_code response < 400 \<and> json_content_type response
              \<and> content response = NotJson
            \<longrightarrow> fst (KoboldApiLLM_acall self rng http prompt stop channel_id)
                  = Inl StdJSONDecodeError))"
proof -
  have agree: "fst (KoboldApiLLM_acall self rng http prompt stop channel_id)
            = KoboldApiLLM_call self http' prompt stop"
    if "http (Post (generate_url self) (JObj (acall_body self rng prompt stop channel_id)))
          = Inr response"
       "http' (Post (generate_url self) (JObj (KoboldApiLLM_get_parameters self prompt stop)))
          = Inr response"
       "status_code response < 400" "json_content_type response" "content response = Document j"
    using that by (rule modes_agree_on_document [where http = http and http' = http'])
  have err: "KoboldApiLLM_call self http' prompt stop = Inl (HTTPError (status_code response))"
    if "http (Post (generate_url self) (JObj (acall_body self rng prompt stop channel_id)))
          = Inr response"
       "http' (Post (generate_url self) (JObj (KoboldApiLLM_get_parameters self prompt stop)))
          = Inr response"
       "400 \<le> status_code response" "status_code response < 600"
    using that by (rule modes_on_error_status(1) [where http = http and http' = http'])
  note fails = acall_failures [where http = http and self = self and rng = rng
      and prompt = prompt and stop = stop and channel_id = channel_id and response = response]
  show ?thesis
    using agree err fails by (simp add: acall_body_eq acall_rest)
qed

theorem C9_call_modes_witness:
  "fst (KoboldApiLLM_acall (default_client ''http://h:5000'') (\<lambda>i. i)
       (always (ok_response (text_payload '' hi ''))) ''p'' None (Some ''c'')) = Inr ''hi''
   \<and> fst (KoboldApiLLM_acall extended_client (\<lambda>i. i)
       (always (ok_response (text_payload '' hi ''))) ''p'' None (Some ''c'')) = Inr ''hi''
   \<and> fst (KoboldApiLLM_acall (default_client ''http://h:5000'') (\<lambda>i. i)
       (always \<lparr>status_code = 404, json_content_type = True, content = Document (JObj [])\<rparr>)
       ''p'' None (Some ''c'')) = Inl (ClientResponseError 404)
   \<and> fst (KoboldApiLLM_acall (default_client ''http://h:5000'') (\<lambda>i. i)
       (always \<lparr>status_code = 200, json_content_type = True, content = Blank\<rparr>)
       ''p'' None (Some ''c'')) = Inl TypeError"
proof -
  let ?bl = "\<lparr>status_code = 200, json_content_type = True, content = Blank\<rparr>"
  have blank: "status_code ?bl < 400 \<and> json_content_type ?bl \<and> content ?bl = Blank" by simp
  let ?ok = "ok_response (text_payload '' hi '')"
  let ?nf = "\<lparr>status_code = 404, json_content_type = True, content = Document (JObj [])\<rparr>"
  have sent: "always r request = Inr r" for r request by (simp add: always_def)
  have call: "KoboldApiLLM_call self (always ?ok) ''p'' None = Inr ''hi''" for self
    by (simp add: call_text_payload postprocess_def string_ops)
  have good: "status_code ?ok < 400 \<and> json_content_type ?ok
      \<and> content ?ok = Document (text_payload '' hi '')"
    by (simp add: ok_response_def)
  have bad: "400 \<le> status_code ?nf \<and> status_code ?nf < 600" by simp
  have one: "fst (KoboldApiLLM_acall (default_client ''http://h:5000'') (\<lambda>i. i) (always ?ok)
                ''p'' None (Some ''c''))
             = KoboldApiLLM_call (default_client ''http://h:5000'') (always ?ok) ''p'' None"
    using C9_call_modes [where http = "always ?ok" and http' = "always ?ok"
        and self = "default_client ''http://h:5000''" and rng = "\<lambda>i. i" and prompt = "''p''"
        and stop = None and channel_id = "Some ''c''" and response = ?ok
        and j = "text_payload '' hi ''"] sent good
    by blast
  have two: "fst (KoboldApiLLM_acall extended_client (\<lambda>i. i) (always ?ok) ''p'' None (Some ''c''))
             = KoboldApiLLM_call extended_client (always ?ok) ''p'' None"
    using C9_call_modes [where http = "always ?ok" and http' = "always ?ok"
        and self = extended_client and rng = "\<lambda>i. i" and prompt = "''p''"
        and stop = None and channel_id = "Some ''c''" and response = ?ok
        and j = "text_payload '' hi ''"] sent good
    by blast
  have three: "fst (KoboldApiLLM_acall (default_client ''http://h:5000'') (\<lambda>i. i) (always ?nf)
                ''p'' None (Some ''c'')) = Inl (ClientResponseError (status_code ?nf))"
    using C9_call_modes [where http = "always ?nf" and http' = "always ?nf"
        and self = "default_client ''http://h:5000''" and rng = "\<lambda>i. i" and prompt = "''p''"
        and stop = None and channel_id = "Some ''c''" and response = ?nf] sent bad
    by blast
  have four: "fst (KoboldApiLLM_acall (default_client ''http://h:5000'') (\<lambda>i. i) (always ?bl)
                ''p'' None (Some ''c'')) = Inl TypeError"
    using C9_call_modes [where http = "always ?bl"
        and self = "default_client ''http://h:5000''" and rng = "\<lambda>i. i" and prompt = "''p''"
        and stop = None and channel_id = "Some ''c''" and response = ?bl] sent blank
    by blast
  show ?thesis using one two three four by (simp add: call)
qed

section \<open>Claims on generation failures\<close>

text \<open>
  C6, the claim as stated: the call fails with the malformed-response error exactly when
  the JSON lacks the \<open>results[0].text\<close> shape. The payload \<open>{"results": 5}\<close> lacks
  the shape, and the call fails with the \<open>TypeError\<close> of \<open>len(5)\<close>; and a response
  with status 500 and the body \<open>{}\<close>, which lacks the shape too, fails with the HTTP
  error, since the status is checked first.
\<close>

theorem C6_exactly_when_counterexample:
  "KoboldApiLLM_call (default_client ''http://h:5000'')
      (always (ok_response (JObj [(''results'', JInt 5)]))) ''p'' None = Inl TypeError
   \<and> \<not> results_text_shape (JObj [(''results'', JInt 5)])
   \<and> KoboldApiLLM_call (default_client ''http://h:5000'')
      (always \<lparr>status_code = 500, json_content_type = True, content = Document (JObj [])\<rparr>) ''p'' None = Inl (HTTPError 500)
   \<and> \<not> results_text_shape (JObj [])"
  by (simp add: KoboldApiLLM_call_def and_then_def always_def ok_response_def
      raise_for_status_def response_json_def expected_shape_def results_text_shape_def)

text \<open>
  C6, amended, for a generation call whose request got a response. The call fails with
  the HTTP error exactly when the status is from 400 to 599. It fails with the
  malformed-response error carrying the decoded payload \<open>j\<close> exactly when the status is
  outside that range, the body decodes to \<open>j\<close> and the shape test of lines 203 to 207
  evaluates to false on \<open>j\<close>. A payload on which the test is false lacks the
  \<open>results[0].text\<close> shape; the test is false on every JSON object without \<open>results\<close>
  key, with an empty \<open>results\<close> array, or whose \<open>results[0]\<close> is an object without
  \<open>text\<close>. A call that fails returns no text.
\<close>

theorem C6_generation_failures:
  assumes "http (Post (generate_url self) (JObj (KoboldApiLLM_get_parameters self prompt stop)))
             = Inr response"
  shows "(KoboldApiLLM_call self http prompt stop = Inl (HTTPError code)
            \<longleftrightarrow> 400 \<le> status_code response \<and> status_code response < 600
                \<and> code = status_code response)
       \<and> (KoboldApiLLM_call self http prompt stop = Inl (UnexpectedFormat j)
            \<longleftrightarrow> \<not> (400 \<le> status_code response \<and> status_code response < 600)
                \<and> content response = Document j \<and> expected_shape j = Inr False)
       \<and> (expected_shape j = Inr False \<longrightarrow> \<not> results_text_shape j)
       \<and> (map_of kvs ''results'' = None \<longrightarrow> expected_shape (JObj kvs) = Inr False)
       \<and> (map_of kvs ''results'' = Some (JArr []) \<longrightarrow> expected_shape (JObj kvs) = Inr False)
       \<and> (map_of kvs ''results'' = Some (JArr (JObj entries # rest)) \<and> map_of entries ''text'' = None
            \<longrightarrow> expected_shape (JObj kvs) = Inr False)
       \<and> (\<forall>e. KoboldApiLLM_call self http prompt stop = Inl e
              \<longrightarrow> (\<forall>text. KoboldApiLLM_call self http prompt stop \<noteq> Inr text))"
proof -
  have shape: "expected_shape j = Inr False \<longrightarrow> \<not> results_text_shape j"
    using expected_shape_of_shape [of j] by auto
  show ?thesis
    using call_HTTPError_iff [where http = http, OF assms, of code]
      call_UnexpectedFormat_iff [where http = http, OF assms, of j]
      shape expected_shape_no_results [of kvs] expected_shape_empty_results [of kvs]
      expected_shape_no_text [of kvs entries rest]
    by simp
qed

theorem C6_generation_failures_witness:
  "KoboldApiLLM_call (default_client ''http://h:5000'')
      (always (ok_response (JObj [(''error'', JStr ''busy'')]))) ''p'' None
     = Inl (UnexpectedFormat (JObj [(''error'', JStr ''busy'')]))
   \<and> KoboldApiLLM_call (default_client ''http://h:5000'')
      (always \<lparr>status_code = 503, json_content_type = False, content = Blank\<rparr>) ''p'' None = Inl (HTTPError 503)"
proof -
  let ?c = "default_client ''http://h:5000''"
  let ?j = "JObj [(''error'', JStr ''busy'')]"
  have a: "always r (Post (generate_url ?c) (JObj (KoboldApiLLM_get_parameters ?c ''p'' None))) = Inr r"
    for r by (simp add: always_def)
  have none: "map_of [(''error'', JStr ''busy'')] ''results'' = None" by simp
  note t1 = C6_generation_failures [where http = "always (ok_response ?j)" and self = ?c
      and prompt = "''p''" and stop = None and response = "ok_response ?j" and j = ?j
      and kvs = "[(''error'', JStr ''busy'')]", OF a]
  from t1 none have shape: "expected_shape ?j = Inr False" by blast
  have st: "\<not> (400 \<le> status_code (ok_response ?j) \<and> status_code (ok_response ?j) < 600)"
      "content (ok_response ?j) = Document ?j"
    by (simp_all add: ok_response_def)
  from t1 shape st have one: "KoboldApiLLM_call ?c (always (ok_response ?j)) ''p'' None
      = Inl (UnexpectedFormat ?j)" by blast
  note t2 = C6_generation_failures [where http = "always \<lparr>status_code = 503, json_content_type = False, content = Blank\<rparr>"
      and self = ?c and prompt = "''p''" and stop = None
      and response = "\<lparr>status_code = 503, json_content_type = False, content = Blank\<rparr>" and code = 503, OF a]
  from t2 have two: "KoboldApiLLM_call ?c (always \<lparr>status_code = 503, json_content_type = False, content = Blank\<rparr>) ''p'' None
      = Inl (HTTPError 503)" by simp
  show ?thesis using one two by blast
qed

section \<open>Claims on the dialect probe\<close>

text \<open>
  C5: the probe marks the client extended only when the extended probe succeeded with a
  valid response, and fails when both probes fail. The lemmas \<open>check_version_extended\<close>,
  \<open>check_version_basic_after_failure\<close> and \<open>check_version_both_fail\<close> above show the
  three cases of the claim where the code does so. It does not at this input: the client
  is in basic mode, the extended endpoint answers with status 200 and a JSON body without
  \<open>version\<close>, and the basic endpoint is unreachable. Line 292 has set the flag when line
  294 raises; the basic probe fails, the probe raises the error of line 305, and the flag
  stays set. The client ends up marked extended although no probe succeeded.
\<close>

theorem C5_flag_left_extended:
  "KoboldApiLLM_check_version (default_client ''http://h:5000'') unversioned_server pyfloat
     = (Inl NotRunning, (default_client ''http://h:5000'')\<lparr>is_koboldcpp := True\<rparr>,
        [RunningKoboldcpp])
   \<and> is_koboldcpp (default_client ''http://h:5000'') = False"
  by (simp add: KoboldApiLLM_check_version_def check_version_basic_def probe_def
      unversioned_server_def and_then_def ok_response_def raise_for_status_def
      response_json_def default_client_def clean_url_def endswith_def)

end
